theory Spec2Isabelle
  imports Complex_Main "HOL-Library.Sublist"
begin

section \<open>Errors of the remote service\<close>

text \<open>
  A value thrown by a remote call is an object with a \<open>code\<close> and a \<open>message\<close> property.
  The code is compared with \<open>===\<close>, so a string code never equals a number; the message
  may be absent.
\<close>

datatype errcode = NoCode | NumCode int | StrCode string

record err =
  code :: errcode
  message :: "string option"

text \<open>\<open>String.prototype.includes\<close>: the argument occurs somewhere in the receiver.\<close>

fun str_includes :: "string \<Rightarrow> string \<Rightarrow> bool" where
  "str_includes [] sub = (sub = [])"
| "str_includes (c # cs) sub = (prefix sub (c # cs) \<or> str_includes cs sub)"

text \<open>\<open>error.message && error.message.includes(t)\<close>: an absent or empty message is falsy.\<close>

definition message_includes :: "err \<Rightarrow> string \<Rightarrow> bool" where
  "message_includes error t =
     (case message error of None \<Rightarrow> False | Some m \<Rightarrow> m \<noteq> [] \<and> str_includes m t)"

definition isQuotaError :: "err \<Rightarrow> bool" where
  "isQuotaError error =
     (code error = NumCode 429 \<or>
      message_includes error ''Quota exceeded'' \<or>
      message_includes error ''Too many requests'')"

definition isRetryableError :: "err \<Rightarrow> bool" where
  "isRetryableError error =
     (isQuotaError error \<or>
      code error = NumCode 500 \<or>
      code error = NumCode 502 \<or>
      code error = NumCode 503 \<or>
      code error = NumCode 504)"

section \<open>The retry executor\<close>

text \<open>
  The wrapped operation is any effectful call: it takes the state of the world and gives
  an outcome and the next state. \<open>Math.random()\<close> is a supply of draws, \<open>random n\<close> being
  the draw made before retry number \<open>n\<close>. A run records what the caller sees (the
  completion), the world it leaves, the outcome of every invocation of the operation and
  every delay that was slept. The retry count of the policy is an integer, the backoff
  cap and the delays are real numbers. When the count is negative the \<open>while\<close> loop
  is never entered and the function returns \<open>undefined\<close> without an invocation:
  that is the completion \<open>Fellthrough\<close>.
\<close>

datatype 'a outcome = Resolved 'a | Rejected err

datatype 'a completion = Returned 'a | Threw err | Fellthrough

record ('a, 'w) run =
  result :: "'a completion"
  world :: 'w
  attempts :: "'a outcome list"
  delays :: "real list"

record config =
  maxRetries :: int
  maxBackoffMs :: real

definition backoffDelay :: "nat \<Rightarrow> real \<Rightarrow> real \<Rightarrow> real" where
  "backoffDelay currentRetry rnd maxBackoffConfig =
     (let baseDelay = 2 ^ currentRetry * 1000;
          jitter = rnd * 1000
      in min (baseDelay + jitter) maxBackoffConfig)"

function retry_loop ::
  "('w \<Rightarrow> 'a outcome \<times> 'w) \<Rightarrow> (nat \<Rightarrow> real) \<Rightarrow> int \<Rightarrow> real \<Rightarrow>
   nat \<Rightarrow> 'w \<Rightarrow> 'a outcome list \<Rightarrow> real list \<Rightarrow> ('a, 'w) run" where
  "retry_loop apiCall random maxRetriesConfig maxBackoffConfig currentRetry w atts ds =
     (if int currentRetry \<le> maxRetriesConfig then
        (case apiCall w of
           (Resolved v, w') \<Rightarrow>
             \<lparr>result = Returned v, world = w', attempts = atts @ [Resolved v], delays = ds\<rparr>
         | (Rejected error, w') \<Rightarrow>
             if \<not> isRetryableError error \<or> int currentRetry \<ge> maxRetriesConfig
             then \<lparr>result = Threw error, world = w',
                   attempts = atts @ [Rejected error], delays = ds\<rparr>
             else retry_loop apiCall random maxRetriesConfig maxBackoffConfig
                    (currentRetry + 1) w' (atts @ [Rejected error])
                    (ds @ [backoffDelay currentRetry (random currentRetry) maxBackoffConfig]))
      else \<lparr>result = Fellthrough, world = w, attempts = atts, delays = ds\<rparr>)"
  by pat_completeness auto
termination
  by (relation "measure (\<lambda>(apiCall, random, m, b, c, w, atts, ds). nat (m + 1 - int c))") auto

declare retry_loop.simps [simp del]

definition retryWithBackoff ::
  "config \<Rightarrow> ('w \<Rightarrow> 'a outcome \<times> 'w) \<Rightarrow> (nat \<Rightarrow> real) \<Rightarrow> int option \<Rightarrow> real option \<Rightarrow>
   'w \<Rightarrow> ('a, 'w) run" where
  "retryWithBackoff cfg apiCall random customMaxRetries customMaxBackoff w =
     (let maxRetriesConfig = (case customMaxRetries of None \<Rightarrow> maxRetries cfg | Some m \<Rightarrow> m);
          maxBackoffConfig = (case customMaxBackoff of None \<Rightarrow> maxBackoffMs cfg | Some b \<Rightarrow> b)
      in retry_loop apiCall random maxRetriesConfig maxBackoffConfig 0 w [] [])"

text \<open>
  What invoking the operation \<open>n\<close> times in a row from a world gives: the outcomes in
  order and the world after the last of them.
\<close>

fun run_calls :: "('w \<Rightarrow> 'a outcome \<times> 'w) \<Rightarrow> 'w \<Rightarrow> nat \<Rightarrow> 'a outcome list \<times> 'w" where
  "run_calls apiCall w 0 = ([], w)"
| "run_calls apiCall w (Suc n) =
     (case apiCall w of (out, w') \<Rightarrow>
        (case run_calls apiCall w' n of (outs, w'') \<Rightarrow> (out # outs, w'')))"

section \<open>JavaScript values, objects and grids\<close>

text \<open>
  The values a cell or a property can hold, each kept as what the code can read of it.
  A number is kept as the text \<open>String(n)\<close> gives for it (\<open>30\<close>, \<open>29.99\<close>, \<open>1e+21\<close>,
  \<open>NaN\<close>), which names the number up to the sign of zero. An object or an array is kept
  as its compact \<open>JSON.stringify\<close> text and its \<open>String(v)\<close> text, a function as its
  \<open>String(f)\<close> text.
\<close>

datatype jsval =
    JUndefined
  | JNull
  | JBool bool
  | JNum string
  | JStr string
  | JObject string string
  | JFunction string

text \<open>
  An object of a \<open>Records\<close> value is a plain object, as an object literal or parsed
  JSON gives: it is kept as its own properties in \<open>Object.keys\<close> order, and its
  prototype is \<open>Object.prototype\<close>. A grid is an array of rows. The three shapes of
  \<open>SpreadsheetData\<close> are told apart by the code with \<open>typeof\<close> and \<open>Array.isArray\<close>.
\<close>

type_synonym jsobject = "(string \<times> jsval) list"

type_synonym grid = "jsval list list"

datatype SpreadsheetData = Csv string | Grid grid | Records "jsobject list"

text \<open>The falsy values are \<open>undefined\<close>, \<open>null\<close>, \<open>false\<close>, \<open>0\<close>, \<open>NaN\<close> and \<open>''\<close>.\<close>

definition truthy :: "jsval \<Rightarrow> bool" where
  "truthy v = (case v of
       JUndefined \<Rightarrow> False
     | JNull \<Rightarrow> False
     | JBool b \<Rightarrow> b
     | JNum n \<Rightarrow> n \<noteq> ''0'' \<and> n \<noteq> ''NaN''
     | JStr s \<Rightarrow> s \<noteq> []
     | JObject j s \<Rightarrow> True
     | JFunction s \<Rightarrow> True)"

text \<open>\<open>a || b\<close>\<close>

definition js_or :: "jsval \<Rightarrow> jsval \<Rightarrow> jsval" where
  "js_or a b = (if truthy a then a else b)"

text \<open>\<open>String(v)\<close>, which is also how a value used as a property name is coerced.\<close>

definition js_toString :: "jsval \<Rightarrow> string" where
  "js_toString v = (case v of
       JUndefined \<Rightarrow> ''undefined''
     | JNull \<Rightarrow> ''null''
     | JBool b \<Rightarrow> (if b then ''true'' else ''false'')
     | JNum n \<Rightarrow> n
     | JStr s \<Rightarrow> s
     | JObject j s \<Rightarrow> s
     | JFunction s \<Rightarrow> s)"

text \<open>
  What a plain object inherits: the methods of \<open>Object.prototype\<close>, which are native
  functions, and the accessor \<open>__proto__\<close>, which gives \<open>Object.prototype\<close> itself.
\<close>

definition native :: "string \<Rightarrow> jsval" where
  "native name = JFunction (''function '' @ name @ ''() { [native code] }'')"

definition object_prototype :: jsobject where
  "object_prototype =
     [(''constructor'', native ''Object''),
      (''__defineGetter__'', native ''__defineGetter__''),
      (''__defineSetter__'', native ''__defineSetter__''),
      (''hasOwnProperty'', native ''hasOwnProperty''),
      (''__lookupGetter__'', native ''__lookupGetter__''),
      (''__lookupSetter__'', native ''__lookupSetter__''),
      (''isPrototypeOf'', native ''isPrototypeOf''),
      (''propertyIsEnumerable'', native ''propertyIsEnumerable''),
      (''toString'', native ''toString''),
      (''valueOf'', native ''valueOf''),
      (''__proto__'', JObject ''{}'' ''[object Object]''),
      (''toLocaleString'', native ''toLocaleString'')]"

text \<open>
  \<open>item[key]\<close>: the value of an own property, else that of an inherited one, else
  \<open>undefined\<close>.
\<close>

definition get_prop :: "jsobject \<Rightarrow> string \<Rightarrow> jsval" where
  "get_prop item key =
     (case map_of item key of
        Some v \<Rightarrow> v
      | None \<Rightarrow> (case map_of object_prototype key of Some v \<Rightarrow> v | None \<Rightarrow> JUndefined))"

text \<open>
  An array index is the canonical decimal text of an integer from 0 to \<open>2^32 - 2\<close>. The
  own keys of an object are listed with the array indices first, in ascending order, and
  the other keys after them, in the order of their creation.
\<close>

definition digit_value :: "char \<Rightarrow> nat option" where
  "digit_value c =
     (let n = (of_char c :: nat) in if 48 \<le> n \<and> n \<le> 57 then Some (n - 48) else None)"

definition array_index :: "string \<Rightarrow> nat option" where
  "array_index key =
     (if key = [] \<or> \<not> list_all (\<lambda>c. digit_value c \<noteq> None) key \<or>
         (1 < length key \<and> hd key = CHR ''0'')
      then None
      else let n = foldl (\<lambda>acc c. 10 * acc + (case digit_value c of Some d \<Rightarrow> d | None \<Rightarrow> 0))
                     0 key
           in if n < 4294967295 then Some n else None)"

fun replace_prop :: "jsobject \<Rightarrow> string \<Rightarrow> jsval \<Rightarrow> jsobject" where
  "replace_prop [] key v = []"
| "replace_prop (p # ps) key v =
     (if fst p = key then (key, v) # ps else p # replace_prop ps key v)"

fun insert_index :: "nat \<Rightarrow> string \<Rightarrow> jsval \<Rightarrow> jsobject \<Rightarrow> jsobject" where
  "insert_index n key v [] = [(key, v)]"
| "insert_index n key v (p # ps) =
     (case array_index (fst p) of
        Some m \<Rightarrow> if m < n then p # insert_index n key v ps else (key, v) # p # ps
      | None \<Rightarrow> (key, v) # p # ps)"

text \<open>
  \<open>obj[key] = v\<close> on a plain object: an existing own property keeps its place; a new
  one is created, except for the key \<open>__proto__\<close>, where the assignment goes to the
  inherited accessor and creates no own property (the prototype it may set is not part
  of the model).
\<close>

definition set_prop :: "jsobject \<Rightarrow> string \<Rightarrow> jsval \<Rightarrow> jsobject" where
  "set_prop obj key v =
     (if map_of obj key \<noteq> None then replace_prop obj key v
      else if key = ''__proto__'' then obj
      else case array_index key of
             Some n \<Rightarrow> insert_index n key v obj
           | None \<Rightarrow> obj @ [(key, v)])"

text \<open>\<open>row[index]\<close>: \<open>undefined\<close> beyond the end of the row.\<close>

definition cell_at :: "jsval list \<Rightarrow> nat \<Rightarrow> jsval" where
  "cell_at row index = (if index < length row then row ! index else JUndefined)"

text \<open>
  A \<open>TypeError\<close> of the runtime, thrown when a property of \<open>undefined\<close> is read: an
  error object without a \<open>code\<close>.
\<close>

definition TypeError :: "string \<Rightarrow> err" where
  "TypeError msg = \<lparr>code = NoCode, message = Some msg\<rparr>"

section \<open>The merge engine\<close>

text \<open>
  \<open>Papa.parse\<close> belongs to the papaparse library and is a parameter. The header of the
  existing grid is \<open>existingData[0]\<close>, which is \<open>undefined\<close> for an empty grid. An empty
  array is an array whose first element is not an array, so it takes the projection
  branch, where \<open>map\<close> has nothing to do.
\<close>

definition project :: "jsval list \<Rightarrow> jsobject \<Rightarrow> jsval list" where
  "project headers item =
     map (\<lambda>header. js_or (get_prop item (js_toString header)) (JStr [])) headers"

definition processNewData ::
  "(string \<Rightarrow> grid) \<Rightarrow> jsval list option \<Rightarrow> SpreadsheetData \<Rightarrow> err + grid" where
  "processNewData papa_parse headers newData =
     (let newData' = (case newData of Csv text \<Rightarrow> Grid (papa_parse text) | d \<Rightarrow> d)
      in case newData' of
           Grid (row # rows) \<Rightarrow> Inr (row # rows)
         | Grid [] \<Rightarrow> Inr []
         | Records [] \<Rightarrow> Inr []
         | Records (item # items) \<Rightarrow>
             (case headers of
                None \<Rightarrow> Inl (TypeError ''Cannot read properties of undefined'')
              | Some hs \<Rightarrow> Inr (map (project hs) (item # items)))
         | Csv text \<Rightarrow> Inr [])"

definition mergeData ::
  "(string \<Rightarrow> grid) \<Rightarrow> grid \<Rightarrow> SpreadsheetData \<Rightarrow> err + jsval list option list" where
  "mergeData papa_parse existingData newData =
     (let headers = (case existingData of [] \<Rightarrow> None | h # rest \<Rightarrow> Some h)
      in case processNewData papa_parse headers newData of
           Inl e \<Rightarrow> Inl e
         | Inr processedNewData \<Rightarrow>
             Inr (foldl (\<lambda>mergedData i.
                     if i = 0 then mergedData
                     else if i \<le> length processedNewData
                          then mergedData @ [Some (processedNewData ! (i - 1))]
                          else mergedData @ [Some (existingData ! i)])
                   [headers] [0 ..< length existingData]))"

text \<open>For inputs that are not CSV text the parser is never called.\<close>

definition no_parse :: "string \<Rightarrow> grid" where
  "no_parse text = []"

section \<open>The format normalizer\<close>

definition dquote :: char where
  "dquote = CHR 0x22"

definition squote :: char where
  "squote = CHR 0x27"

definition newline :: char where
  "newline = CHR 0x0A"

text \<open>\<open>Array.prototype.join\<close> on strings.\<close>

fun join :: "string \<Rightarrow> string list \<Rightarrow> string" where
  "join sep [] = []"
| "join sep [x] = x"
| "join sep (x # y # ys) = x @ sep @ join sep (y # ys)"

text \<open>\<open>s.replace(/c/g, t)\<close> for a single character \<open>c\<close>.\<close>

definition replace_char :: "char \<Rightarrow> string \<Rightarrow> string \<Rightarrow> string" where
  "replace_char c t s = concat (map (\<lambda>x. if x = c then t else [x]) s)"

text \<open>\<open>String.prototype.trim\<close>, on the white space of the one-byte characters.\<close>

definition is_space :: "char \<Rightarrow> bool" where
  "is_space c =
     (c \<in> set [CHR 0x09, CHR 0x0A, CHR 0x0B, CHR 0x0C, CHR 0x0D, CHR 0x20, CHR 0xA0])"

definition trim :: "string \<Rightarrow> string" where
  "trim s = rev (dropWhile is_space (rev (dropWhile is_space s)))"

text \<open>A \<open>Set\<close> keeps its elements in insertion order.\<close>

definition set_add :: "string list \<Rightarrow> string \<Rightarrow> string list" where
  "set_add keysSet key = (if key \<in> set keysSet then keysSet else keysSet @ [key])"

definition getUniqueKeys :: "jsobject list \<Rightarrow> string list" where
  "getUniqueKeys data = foldl (\<lambda>keysSet item. foldl set_add keysSet (map fst item)) [] data"

definition convertToSafeValue :: "jsval \<Rightarrow> jsval" where
  "convertToSafeValue v = (case v of
       JNull \<Rightarrow> JStr []
     | JUndefined \<Rightarrow> JStr []
     | JObject j s \<Rightarrow> JStr (replace_char dquote [squote] j)
     | other \<Rightarrow> other)"

definition csv_cell :: "nat \<Rightarrow> jsobject \<Rightarrow> string \<Rightarrow> string" where
  "csv_cell charLimit item col =
     (if get_prop item col = JUndefined \<or> get_prop item col = JNull then []
      else let v = take charLimit (trim (js_toString (convertToSafeValue (get_prop item col))))
           in [dquote] @ replace_char dquote [dquote, dquote] v @ [dquote])"

definition makeCSVFromData :: "jsobject list \<Rightarrow> nat option \<Rightarrow> string" where
  "makeCSVFromData data charLimitArg =
     (let charLimit = (case charLimitArg of None \<Rightarrow> 50000 | Some n \<Rightarrow> n)
      in if data = [] then []
         else let columns = getUniqueKeys data;
                  csvString = join '','' columns @ [newline]
              in foldl (\<lambda>csvString item.
                          csvString @ join '','' (map (csv_cell charLimit item) columns) @ [newline])
                   csvString data)"

definition convertValuesToObjects :: "grid \<Rightarrow> jsobject list" where
  "convertValuesToObjects vals =
     (case vals of
        [] \<Rightarrow> []
      | headers # rows \<Rightarrow>
          map (\<lambda>row. foldl (\<lambda>obj (header, index).
                              set_prop obj (js_toString header) (js_or (cell_at row index) (JStr [])))
                        [] (zip headers [0 ..< length headers]))
              rows)"









section \<open>The tab color of \<open>addTab\<close>\<close>

text \<open>\<open>s.slice(a, b)\<close> for indices \<open>0 \<le> a \<le> b\<close>.\<close>

definition slice :: "string \<Rightarrow> nat \<Rightarrow> nat \<Rightarrow> string" where
  "slice s a b = take (b - a) (drop a s)"

definition hex_digit_value :: "char \<Rightarrow> nat option" where
  "hex_digit_value c =
     (let n = (of_char c :: nat)
      in if 48 \<le> n \<and> n \<le> 57 then Some (n - 48)
         else if 97 \<le> n \<and> n \<le> 102 then Some (n - 87)
         else if 65 \<le> n \<and> n \<le> 70 then Some (n - 55)
         else None)"

text \<open>
  \<open>parseInt(s, 16)\<close>: leading white space, a sign and a \<open>0x\<close> prefix are skipped, then
  the longest run of hexadecimal digits is read; \<open>None\<close> is \<open>NaN\<close>, the result when
  that run is empty.
\<close>

definition parseInt16 :: "string \<Rightarrow> int option" where
  "parseInt16 s =
     (let s1 = dropWhile is_space s;
          sign = (case s1 of c # r \<Rightarrow> if c = CHR ''-'' then - 1 else 1 | [] \<Rightarrow> 1);
          s2 = (case s1 of c # r \<Rightarrow> if c = CHR ''-'' \<or> c = CHR ''+'' then r else s1 | [] \<Rightarrow> []);
          s3 = (case s2 of
                  a # b # r \<Rightarrow> if a = CHR ''0'' \<and> (b = CHR ''x'' \<or> b = CHR ''X'') then r else s2
                | _ \<Rightarrow> s2);
          digits = takeWhile (\<lambda>c. hex_digit_value c \<noteq> None) s3
      in if digits = [] then None
         else Some (sign * int (foldl (\<lambda>acc c. 16 * acc +
                                   (case hex_digit_value c of Some d \<Rightarrow> d | None \<Rightarrow> 0))
                                 0 digits)))"

text \<open>A channel is \<open>parseInt(..., 16) / 255\<close>; \<open>NaN / 255\<close> is \<open>NaN\<close>.\<close>

definition channel :: "string \<Rightarrow> real option" where
  "channel s = (case parseInt16 s of None \<Rightarrow> None | Some n \<Rightarrow> Some (real_of_int n / 255))"

record color =
  red :: "real option"
  green :: "real option"
  blue :: "real option"

record addTabOptions =
  opt_index :: "nat option"
  opt_hidden :: "bool option"
  opt_tabColor :: "string option"

record sheetProperties =
  title :: string
  index :: "nat option"
  hidden :: bool
  tabColor :: "color option"

text \<open>
  The \<open>addSheet\<close> request that \<open>addTab\<close> sends: the color is present when the option
  is a non-empty string, and its channels are read at the positions 1 to 6, after the
  leading \<open>#\<close> of the documented format \<open>'#FF0000'\<close>.
\<close>

definition addSheetRequest :: "string \<Rightarrow> addTabOptions \<Rightarrow> sheetProperties" where
  "addSheetRequest tabName options =
     \<lparr>title = tabName,
      index = opt_index options,
      hidden = (case opt_hidden options of None \<Rightarrow> False | Some h \<Rightarrow> h),
      tabColor =
        (case opt_tabColor options of
           None \<Rightarrow> None
         | Some c \<Rightarrow>
             if c = [] then None
             else Some \<lparr>red = channel (slice c 1 3),
                        green = channel (slice c 3 5),
                        blue = channel (slice c 5 7)\<rparr>)\<rparr>"

section \<open>The spreadsheet operations facade\<close>

text \<open>
  The remote service is a world \<open>'w\<close> that every request reads and changes. The
  \<open>sheets\<close> and \<open>drive\<close> handles of the module are \<open>null\<close> until \<open>init\<close> sets both;
  a handle gives the requests the code sends through it, each with the part of the
  response the code reads. Every request the facade sends is written to a log, next to
  the world, so that requests can be counted.
\<close>

record SheetResponse =
  updatedCells :: nat

datatype event =
    EvSpreadsheetsGet string
  | EvAddSheet string string
  | EvValuesUpdate string string
  | EvValuesGet string string
  | EvFilesDelete string
  | EvCreateSheet

record 'w sheets_api =
  spreadsheets_get :: "string \<Rightarrow> 'w \<Rightarrow> string list option outcome \<times> 'w"
  spreadsheets_addSheet :: "string \<Rightarrow> string \<Rightarrow> 'w \<Rightarrow> unit outcome \<times> 'w"
  values_update ::
    "string \<Rightarrow> string \<Rightarrow> jsval list option list \<Rightarrow> 'w \<Rightarrow> SheetResponse option outcome \<times> 'w"
  values_get :: "string \<Rightarrow> string \<Rightarrow> 'w \<Rightarrow> grid option outcome \<times> 'w"

record 'w drive_api =
  files_delete :: "string \<Rightarrow> 'w \<Rightarrow> unit outcome \<times> 'w"

record 'w library =
  sheets :: "'w sheets_api option"
  drive :: "'w drive_api option"
  retry_config :: config

definition logged :: "event \<Rightarrow> ('w \<Rightarrow> 'a outcome \<times> 'w) \<Rightarrow> 'w \<times> event list \<Rightarrow> 'a outcome \<times> 'w \<times> event list" where
  "logged ev request st = (case request (fst st) of (out, w') \<Rightarrow> (out, (w', snd st @ [ev])))"

definition not_initialized :: err where
  "not_initialized = \<lparr>code = NoCode, message = Some ''ak-sheets not initialized. Call init() first.''\<rparr>"

subsection \<open>Entry guards\<close>

text \<open>
  Every exported function, and the handles its first statement tests before anything
  else is done. \<open>deleteAllSheets\<close> has no test of its own: it logs and calls
  \<open>listOwnedSpreadsheets\<close>, which tests \<open>drive\<close>, and rethrows what that throws. The
  conversion utilities and \<open>getURL\<close> test nothing.
\<close>

datatype operation =
    CreateSheet | WriteToSheet | WriteToSheetTabs | ShareSheet | DeleteSheet | GetURL
  | ListOwnedSpreadsheets | DeleteAllSheets | MakeCSVFromData | GetSheet | UpdateSheet
  | ReadXlsxFile | CsvToJson | JsonToCsv | AppendToSheet | ClearSheet | GetSheetInfo
  | GetRange | WriteToRange | AddTab | DeleteTab | RenameTab | DuplicateTab | ListTabs

datatype handle = Sheets | Drive

fun guard :: "operation \<Rightarrow> handle list" where
  "guard CreateSheet = [Sheets, Drive]"
| "guard WriteToSheet = [Sheets]"
| "guard WriteToSheetTabs = [Sheets]"
| "guard ShareSheet = [Drive]"
| "guard DeleteSheet = [Drive]"
| "guard GetURL = []"
| "guard ListOwnedSpreadsheets = [Drive]"
| "guard DeleteAllSheets = [Drive]"
| "guard MakeCSVFromData = []"
| "guard GetSheet = [Sheets]"
| "guard UpdateSheet = [Sheets]"
| "guard ReadXlsxFile = []"
| "guard CsvToJson = []"
| "guard JsonToCsv = []"
| "guard AppendToSheet = [Sheets]"
| "guard ClearSheet = [Sheets]"
| "guard GetSheetInfo = [Sheets]"
| "guard GetRange = [Sheets]"
| "guard WriteToRange = [Sheets]"
| "guard AddTab = [Sheets]"
| "guard DeleteTab = [Sheets]"
| "guard RenameTab = [Sheets]"
| "guard DuplicateTab = [Sheets]"
| "guard ListTabs = [Sheets]"

definition is_null :: "'w library \<Rightarrow> handle \<Rightarrow> bool" where
  "is_null lib h = (case h of Sheets \<Rightarrow> sheets lib = None | Drive \<Rightarrow> drive lib = None)"

text \<open>
  A call of an exported function: the guard, then the rest of the function, which is
  any computation on the world and the log.
\<close>

definition call ::
  "'w library \<Rightarrow> operation \<Rightarrow> ('w \<times> event list \<Rightarrow> 'a outcome \<times> 'w \<times> event list) \<Rightarrow>
   'w \<times> event list \<Rightarrow> 'a outcome \<times> 'w \<times> event list" where
  "call lib op rest st =
     (if list_ex (is_null lib) (guard op) then (Rejected not_initialized, st) else rest st)"

definition getURL :: "string \<Rightarrow> string" where
  "getURL spreadsheetId = ''https://docs.google.com/spreadsheets/d/'' @ spreadsheetId"

definition uninitialized :: "unit library" where
  "uninitialized = \<lparr>sheets = None, drive = None,
                     retry_config = \<lparr>maxRetries = 5, maxBackoffMs = 64000\<rparr>\<rparr>"

definition getURL_call :: "string \<Rightarrow> unit \<times> event list \<Rightarrow> string outcome \<times> unit \<times> event list" where
  "getURL_call spreadsheetId st = (Resolved (getURL spreadsheetId), st)"

subsection \<open>Reading, writing and updating a sheet\<close>

text \<open>
  \<open>await retryWithBackoff(...)\<close>: the value, \<open>undefined\<close> when the loop of the executor
  ends without an attempt, or the error thrown.
\<close>

definition awaited :: "('a, 's) run \<Rightarrow> 'a option outcome \<times> 's" where
  "awaited r = (case result r of
       Returned v \<Rightarrow> (Resolved (Some v), world r)
     | Threw e \<Rightarrow> (Rejected e, world r)
     | Fellthrough \<Rightarrow> (Resolved None, world r))"

definition request ::
  "'w library \<Rightarrow> (nat \<Rightarrow> real) \<Rightarrow> event \<Rightarrow> ('w \<Rightarrow> 'a outcome \<times> 'w) \<Rightarrow>
   'w \<times> event list \<Rightarrow> 'a option outcome \<times> 'w \<times> event list" where
  "request lib random ev remote st =
     awaited (retryWithBackoff (retry_config lib) (logged ev remote) random None None st)"

text \<open>\<open>tab ? ... : ...\<close>: an absent or empty tab name is falsy.\<close>

definition tab_given :: "string option \<Rightarrow> bool" where
  "tab_given tab = (case tab of None \<Rightarrow> False | Some t \<Rightarrow> t \<noteq> [])"

text \<open>The tab name inside a template string: \<open>undefined\<close> is printed as such.\<close>

definition tab_text :: "string option \<Rightarrow> string" where
  "tab_text tab = (case tab of None \<Rightarrow> ''undefined'' | Some t \<Rightarrow> t)"

text \<open>
  The format argument after \<open>toLowerCase\<close>, as the \<open>switch\<close> sees it: \<open>'csv'\<close>,
  \<open>'array'\<close>, and anything else, which is read as \<open>'json'\<close>.
\<close>

datatype format = FormatJson | FormatCsv | FormatArray

datatype sheet_data = AsJson "jsobject list" | AsCsv string | AsArray grid

definition getSheet ::
  "'w library \<Rightarrow> (nat \<Rightarrow> real) \<Rightarrow> string \<Rightarrow> string option \<Rightarrow> format \<Rightarrow>
   'w \<times> event list \<Rightarrow> sheet_data outcome \<times> 'w \<times> event list" where
  "getSheet lib random spreadsheetId tab fmt st =
     (case sheets lib of
        None \<Rightarrow> (Rejected not_initialized, st)
      | Some api \<Rightarrow>
          (let range_text = (if tab_given tab then tab_text tab @ ''!A:ZZ'' else ''A:ZZ'')
           in case request lib random (EvValuesGet spreadsheetId range_text)
                     (values_get api spreadsheetId range_text) st of
                (Rejected error, st1) \<Rightarrow> (Rejected error, st1)
              | (Resolved response, st1) \<Rightarrow>
                  (let vals = (case response of Some (Some v) \<Rightarrow> v | _ \<Rightarrow> [])
                   in (Resolved (case fmt of
                                   FormatCsv \<Rightarrow> AsCsv (makeCSVFromData (convertValuesToObjects vals) None)
                                 | FormatArray \<Rightarrow> AsArray vals
                                 | FormatJson \<Rightarrow> AsJson (convertValuesToObjects vals)),
                       st1))))"

definition deleteSheet ::
  "'w library \<Rightarrow> (nat \<Rightarrow> real) \<Rightarrow> string \<Rightarrow> 'w \<times> event list \<Rightarrow> unit outcome \<times> 'w \<times> event list" where
  "deleteSheet lib random spreadsheetId st =
     (case drive lib of
        None \<Rightarrow> (Rejected not_initialized, st)
      | Some api \<Rightarrow>
          (case request lib random (EvFilesDelete spreadsheetId) (files_delete api spreadsheetId) st of
             (Rejected error, st1) \<Rightarrow> (Rejected error, st1)
           | (Resolved response, st1) \<Rightarrow> (Resolved (), st1)))"

text \<open>
  The rows of \<open>writeToSheet\<close> become CSV text before anything is sent: an array of
  objects through \<open>makeCSVFromData\<close>, any other array through \<open>Papa.unparse\<close>, a
  parameter like \<open>Papa.parse\<close>.
\<close>

definition to_csv :: "(grid \<Rightarrow> string) \<Rightarrow> SpreadsheetData \<Rightarrow> string" where
  "to_csv papa_unparse rows = (case rows of
       Csv text \<Rightarrow> text
     | Grid g \<Rightarrow> papa_unparse g
     | Records [] \<Rightarrow> papa_unparse []
     | Records (item # items) \<Rightarrow> makeCSVFromData (item # items) None)"

definition write_values ::
  "'w library \<Rightarrow> 'w sheets_api \<Rightarrow> (nat \<Rightarrow> real) \<Rightarrow> string \<Rightarrow> string \<Rightarrow> jsval list option list \<Rightarrow>
   'w \<times> event list \<Rightarrow> SheetResponse outcome \<times> 'w \<times> event list" where
  "write_values lib api random spreadsheetId range_text vals st =
     (case request lib random (EvValuesUpdate spreadsheetId range_text)
             (values_update api spreadsheetId range_text vals) st of
        (Rejected error, st1) \<Rightarrow> (Rejected error, st1)
      | (Resolved (Some (Some data)), st1) \<Rightarrow> (Resolved data, st1)
      | (Resolved other, st1) \<Rightarrow> (Resolved \<lparr>updatedCells = 0\<rparr>, st1))"

text \<open>The \<open>try\<close> block of \<open>writeToSheet\<close>.\<close>

definition write_try ::
  "'w library \<Rightarrow> 'w sheets_api \<Rightarrow> (string \<Rightarrow> grid) \<Rightarrow> (nat \<Rightarrow> real) \<Rightarrow> string \<Rightarrow> string \<Rightarrow>
   string option \<Rightarrow> 'w \<times> event list \<Rightarrow> SheetResponse outcome \<times> 'w \<times> event list" where
  "write_try lib api papa_parse random spreadsheetId csv tab st =
     (let vals = map Some (papa_parse csv)
      in if tab_given tab then
           (case request lib random (EvSpreadsheetsGet spreadsheetId)
                   (spreadsheets_get api spreadsheetId) st of
              (Rejected error, st1) \<Rightarrow> (Rejected error, st1)
            | (Resolved None, st1) \<Rightarrow>
                (Rejected (TypeError ''Cannot read properties of undefined''), st1)
            | (Resolved (Some titles), st1) \<Rightarrow>
                (let existingSheets = (case titles of None \<Rightarrow> [] | Some ts \<Rightarrow> ts)
                 in if tab_text tab \<notin> set existingSheets then
                      (case request lib random (EvAddSheet spreadsheetId (tab_text tab))
                              (spreadsheets_addSheet api spreadsheetId (tab_text tab)) st1 of
                         (Rejected error, st2) \<Rightarrow> (Rejected error, st2)
                       | (Resolved response, st2) \<Rightarrow>
                           write_values lib api random spreadsheetId (tab_text tab @ ''!A1'') vals st2)
                    else write_values lib api random spreadsheetId (tab_text tab @ ''!A1'') vals st1))
         else write_values lib api random spreadsheetId ''A1'' vals st)"

text \<open>
  \<open>createSheet\<close> is a parameter: what it does to the world and the identifier it
  gives, for the tab names it is called with. Its guard is that of the table above, and
  each call is logged.
\<close>

definition recreate ::
  "'w library \<Rightarrow> (string list \<Rightarrow> 'w \<Rightarrow> string outcome \<times> 'w) \<Rightarrow> string list \<Rightarrow>
   'w \<times> event list \<Rightarrow> string outcome \<times> 'w \<times> event list" where
  "recreate lib createSheet tabs st = call lib CreateSheet (logged EvCreateSheet (createSheet tabs)) st"

text \<open>
  \<open>writeToSheet\<close> calls itself from its \<open>catch\<close> block, with nothing that counts the
  calls: it is a partial function, and \<open>None\<close> is a call that never returns.
\<close>

partial_function (option) writeToSheet ::
  "'w library \<Rightarrow> (string \<Rightarrow> grid) \<Rightarrow> (grid \<Rightarrow> string) \<Rightarrow>
   (string list \<Rightarrow> 'w \<Rightarrow> string outcome \<times> 'w) \<Rightarrow> (nat \<Rightarrow> real) \<Rightarrow>
   string \<Rightarrow> SpreadsheetData \<Rightarrow> string option \<Rightarrow> 'w \<times> event list \<Rightarrow>
   (SheetResponse outcome \<times> 'w \<times> event list) option" where
  "writeToSheet lib papa_parse papa_unparse createSheet random spreadsheetId rows tab st =
     (case sheets lib of
        None \<Rightarrow> Some (Rejected not_initialized, st)
      | Some api \<Rightarrow>
          (case write_try lib api papa_parse random spreadsheetId (to_csv papa_unparse rows) tab st of
             (Resolved response, st1) \<Rightarrow> Some (Resolved response, st1)
           | (Rejected error, st1) \<Rightarrow>
               if code error = NumCode 404 then
                 (case recreate lib createSheet [] st1 of
                    (Rejected error2, st2) \<Rightarrow> Some (Rejected error2, st2)
                  | (Resolved newSpreadsheetId, st2) \<Rightarrow>
                      writeToSheet lib papa_parse papa_unparse createSheet random
                        newSpreadsheetId (Csv (to_csv papa_unparse rows)) tab st2)
               else Some (Rejected error, st1)))"

text \<open>The \<open>try\<close> block of \<open>updateSheet\<close>; it returns \<open>response.data\<close>, which may be absent.\<close>

definition update_try ::
  "'w library \<Rightarrow> 'w sheets_api \<Rightarrow> (string \<Rightarrow> grid) \<Rightarrow> (nat \<Rightarrow> real) \<Rightarrow> string \<Rightarrow>
   SpreadsheetData \<Rightarrow> string option \<Rightarrow> 'w \<times> event list \<Rightarrow>
   SheetResponse option outcome \<times> 'w \<times> event list" where
  "update_try lib api papa_parse random spreadsheetId newData tab st =
     (case getSheet lib random spreadsheetId tab FormatArray st of
        (Rejected error, st1) \<Rightarrow> (Rejected error, st1)
      | (Resolved (AsArray existingData), st1) \<Rightarrow>
          (case mergeData papa_parse existingData newData of
             Inl error \<Rightarrow> (Rejected error, st1)
           | Inr updatedValues \<Rightarrow>
               (case request lib random (EvValuesUpdate spreadsheetId (tab_text tab @ ''!A1''))
                       (values_update api spreadsheetId (tab_text tab @ ''!A1'') updatedValues) st1 of
                  (Rejected error, st2) \<Rightarrow> (Rejected error, st2)
                | (Resolved None, st2) \<Rightarrow>
                    (Rejected (TypeError ''Cannot read properties of undefined''), st2)
                | (Resolved (Some data), st2) \<Rightarrow> (Resolved data, st2)))
      | (Resolved other, st1) \<Rightarrow> (Rejected (TypeError ''not an array''), st1))"

definition updateSheet ::
  "'w library \<Rightarrow> (string \<Rightarrow> grid) \<Rightarrow> (grid \<Rightarrow> string) \<Rightarrow>
   (string list \<Rightarrow> 'w \<Rightarrow> string outcome \<times> 'w) \<Rightarrow> (nat \<Rightarrow> real) \<Rightarrow>
   string \<Rightarrow> SpreadsheetData \<Rightarrow> string option \<Rightarrow> 'w \<times> event list \<Rightarrow>
   (SheetResponse option outcome \<times> 'w \<times> event list) option" where
  "updateSheet lib papa_parse papa_unparse createSheet random spreadsheetId newData tab st =
     (case sheets lib of
        None \<Rightarrow> Some (Rejected not_initialized, st)
      | Some api \<Rightarrow>
          (case update_try lib api papa_parse random spreadsheetId newData tab st of
             (Resolved response, st1) \<Rightarrow> Some (Resolved response, st1)
           | (Rejected error, st1) \<Rightarrow>
               if code error = NumCode 404 then
                 (case recreate lib createSheet (if tab_given tab then [tab_text tab] else []) st1 of
                    (Rejected error2, st2) \<Rightarrow> Some (Rejected error2, st2)
                  | (Resolved newSpreadsheetId, st2) \<Rightarrow>
                      map_option (\<lambda>(out, st3).
                                    (case out of Resolved response \<Rightarrow> Resolved (Some response)
                                               | Rejected e \<Rightarrow> Rejected e, st3))
                        (writeToSheet lib papa_parse papa_unparse createSheet random
                           newSpreadsheetId newData tab st2))
               else Some (Rejected error, st1)))"

section \<open>Examples\<close>

text \<open>
  Scripted operations for examples: the world counts the invocations made so far, and the
  outcome of an invocation depends on that count only.
\<close>

definition scripted :: "(nat \<Rightarrow> 'a outcome) \<Rightarrow> nat \<Rightarrow> 'a outcome \<times> nat" where
  "scripted script n = (script n, Suc n)"

definition unavailable :: err where
  "unavailable = \<lparr>code = NumCode 503, message = Some ''Service Unavailable''\<rparr>"

definition always_unavailable :: "nat \<Rightarrow> unit outcome" where
  "always_unavailable n = Rejected unavailable"

definition unavailable_twice :: "nat \<Rightarrow> unit outcome" where
  "unavailable_twice n = (if n < 2 then Rejected unavailable else Resolved ())"

text \<open>
  A service for examples: its world counts the \<open>values.update\<close> requests received, and
  the first \<open>k\<close> of them are answered with not-found; a service where all of them are;
  a \<open>createSheet\<close> that always gives a fresh spreadsheet; a tab that reads empty.
\<close>

definition gone :: err where
  "gone = \<lparr>code = NumCode 404, message = Some ''Requested entity was not found.''\<rparr>"

definition api_gone_until :: "nat \<Rightarrow> nat sheets_api" where
  "api_gone_until k =
     \<lparr>spreadsheets_get = (\<lambda>spreadsheetId w. (Resolved (Some []), w)),
      spreadsheets_addSheet = (\<lambda>spreadsheetId tab w. (Resolved (), w)),
      values_update = (\<lambda>spreadsheetId range_text vals w.
         (if w < k then Rejected gone else Resolved (Some \<lparr>updatedCells = length vals\<rparr>), Suc w)),
      values_get = (\<lambda>spreadsheetId range_text w. (Resolved None, w))\<rparr>"

definition api_always_gone :: "nat sheets_api" where
  "api_always_gone =
     \<lparr>spreadsheets_get = (\<lambda>spreadsheetId w. (Resolved (Some []), w)),
      spreadsheets_addSheet = (\<lambda>spreadsheetId tab w. (Resolved (), w)),
      values_update = (\<lambda>spreadsheetId range_text vals w. (Rejected gone, Suc w)),
      values_get = (\<lambda>spreadsheetId range_text w. (Resolved None, w))\<rparr>"

definition a_drive :: "nat drive_api" where
  "a_drive = \<lparr>files_delete = (\<lambda>spreadsheetId w. (Resolved (), w))\<rparr>"

definition library_of :: "nat sheets_api \<Rightarrow> nat library" where
  "library_of api = \<lparr>sheets = Some api, drive = Some a_drive,
                      retry_config = \<lparr>maxRetries = 5, maxBackoffMs = 64000\<rparr>\<rparr>"

definition fresh_sheet :: "string list \<Rightarrow> nat \<Rightarrow> string outcome \<times> nat" where
  "fresh_sheet tabs w = (Resolved ''fresh'', w)"

definition one_row :: "string \<Rightarrow> grid" where
  "one_row text = [[JStr text]]"

definition no_unparse :: "grid \<Rightarrow> string" where
  "no_unparse g = []"

definition no_jitter :: "nat \<Rightarrow> real" where
  "no_jitter n = 0"

definition recreations :: "('a \<times> 'w \<times> event list) option \<Rightarrow> nat option" where
  "recreations r = map_option (\<lambda>(out, w, log). count_list log EvCreateSheet) r"

text \<open>The rest of some exported function: it would send a request.\<close>

definition a_request :: "unit \<times> event list \<Rightarrow> unit outcome \<times> unit \<times> event list" where
  "a_request st = (Resolved (), (fst st, snd st @ [EvFilesDelete ''any'']))"

text \<open>The log grows, and by no call of \<open>createSheet\<close>.\<close>

definition no_recreation :: "'w \<times> event list \<Rightarrow> 'w \<times> event list \<Rightarrow> bool" where
  "no_recreation st st' = (\<exists>evs. snd st' = snd st @ evs \<and> EvCreateSheet \<notin> set evs)"

section \<open>Properties of the retry executor\<close>

lemma retry_loop_attempts:
  "\<exists>new. attempts (retry_loop apiCall random m b c w atts ds) = atts @ new \<and>
     length new \<le> nat (m + 1 - int c) \<and>
     (\<forall>x \<in> set (butlast new). \<exists>e. x = Rejected e \<and> isRetryableError e) \<and>
     delays (retry_loop apiCall random m b c w atts ds) =
        ds @ map (\<lambda>n. backoffDelay n (random n) b) [c ..< c + (length new - 1)] \<and>
     (int c \<le> m \<longrightarrow> new \<noteq> [] \<and>
        (case last new of
           Resolved v \<Rightarrow> result (retry_loop apiCall random m b c w atts ds) = Returned v
         | Rejected e \<Rightarrow> result (retry_loop apiCall random m b c w atts ds) = Threw e \<and>
             (\<not> isRetryableError e \<or> int c + int (length new) = m + 1)))"
proof (induction apiCall random m b c w atts ds rule: retry_loop.induct)
  case (1 apiCall random m b c w atts ds)
  show ?case
  proof (cases "int c \<le> m")
    case False
    then show ?thesis by (simp add: retry_loop.simps)
  next
    case le: True
    obtain out w' where ac: "apiCall w = (out, w')" by (cases "apiCall w")
    show ?thesis
    proof (cases out)
      case (Resolved v)
      with le ac show ?thesis by (simp add: retry_loop.simps)
    next
      case (Rejected e)
      show ?thesis
      proof (cases "\<not> isRetryableError e \<or> int c \<ge> m")
        case True
        with le ac Rejected show ?thesis by (auto simp add: retry_loop.simps)
      next
        case False
        then have lt: "int c < m" and re: "isRetryableError e" by auto
        from "1.IH"[OF le ac[symmetric] Rejected False]
        obtain new where
          a: "attempts (retry_loop apiCall random m b (c + 1) w' (atts @ [Rejected e])
                (ds @ [backoffDelay c (random c) b])) = (atts @ [Rejected e]) @ new"
          and l: "length new \<le> nat (m + 1 - int (c + 1))"
          and bl: "\<forall>x \<in> set (butlast new). \<exists>e. x = Rejected e \<and> isRetryableError e"
          and d: "delays (retry_loop apiCall random m b (c + 1) w' (atts @ [Rejected e])
                (ds @ [backoffDelay c (random c) b])) =
                (ds @ [backoffDelay c (random c) b]) @
                  map (\<lambda>n. backoffDelay n (random n) b) [c + 1 ..< c + 1 + (length new - 1)]"
          and r: "int (c + 1) \<le> m \<longrightarrow> new \<noteq> [] \<and>
            (case last new of
               Resolved v \<Rightarrow> result (retry_loop apiCall random m b (c + 1) w' (atts @ [Rejected e])
                (ds @ [backoffDelay c (random c) b])) = Returned v
             | Rejected e' \<Rightarrow> result (retry_loop apiCall random m b (c + 1) w' (atts @ [Rejected e])
                (ds @ [backoffDelay c (random c) b])) = Threw e' \<and>
                 (\<not> isRetryableError e' \<or> int (c + 1) + int (length new) = m + 1))"
          by blast
        have eq: "retry_loop apiCall random m b c w atts ds =
            retry_loop apiCall random m b (c + 1) w' (atts @ [Rejected e])
                (ds @ [backoffDelay c (random c) b])"
          using le ac Rejected False by (subst retry_loop.simps) simp
        from lt r have ne: "new \<noteq> []" by simp
        have up: "[c ..< c + length new] = c # [c + 1 ..< c + 1 + (length new - 1)]"
          using ne by (cases new) (simp_all add: upt_rec)
        show ?thesis
          apply (rule exI[of _ "Rejected e # new"])
          unfolding eq
          using a l bl d r lt re ne up
          by (auto split: outcome.splits)
      qed
    qed
  qed
qed

lemma backoffDelay_mono:
  assumes "\<forall>n. 0 \<le> random n \<and> random n < 1" "i \<le> j"
  shows "backoffDelay i (random i) b \<le> backoffDelay j (random j) b"
proof (cases "i = j")
  case True then show ?thesis by simp
next
  case False
  with assms have lt: "Suc i \<le> j" by simp
  define p :: real where "p = 2 ^ i"
  define q :: real where "q = 2 ^ j"
  have "(2::real) ^ Suc i \<le> 2 ^ j" using lt by (intro power_increasing) simp_all
  then have pq: "2 * p \<le> q" by (simp add: p_def q_def)
  have p1: "1 \<le> p" unfolding p_def by simp
  have r: "random i < 1" "0 \<le> random j" using assms by auto
  have "p * 1000 + random i * 1000 \<le> q * 1000 + random j * 1000"
    using pq p1 r by linarith
  then have "2 ^ i * 1000 + random i * 1000 \<le> 2 ^ j * 1000 + random j * 1000"
    by (simp add: p_def q_def)
  then show ?thesis by (simp add: backoffDelay_def Let_def min_le_iff_disj)
qed

lemma isRetryableError_iff:
  "isRetryableError e \<longleftrightarrow>
     (code e \<in> {NumCode 429, NumCode 500, NumCode 502, NumCode 503, NumCode 504} \<or>
      (\<exists>m. message e = Some m \<and>
         (str_includes m ''Quota exceeded'' \<or> str_includes m ''Too many requests'')))"
  by (auto simp: isRetryableError_def isQuotaError_def message_includes_def
           split: option.splits)

lemma retry_first_resolved:
  assumes "apiCall w = (Resolved v, w')" "0 \<le> maxRetries cfg"
  shows "retryWithBackoff cfg apiCall random None None w
           = \<lparr>result = Returned v, world = w', attempts = [Resolved v], delays = []\<rparr>"
  using assms by (simp add: retryWithBackoff_def retry_loop.simps)

lemma retry_first_fatal:
  assumes "apiCall w = (Rejected e, w')" "\<not> isRetryableError e" "0 \<le> maxRetries cfg"
  shows "retryWithBackoff cfg apiCall random None None w
           = \<lparr>result = Threw e, world = w', attempts = [Rejected e], delays = []\<rparr>"
  using assms by (simp add: retryWithBackoff_def retry_loop.simps)

lemma retry_loop_invariant:
  assumes refl: "\<And>w. R w w"
      and trans: "\<And>a b c. R a b \<Longrightarrow> R b c \<Longrightarrow> R a c"
  shows "(\<And>w out w'. apiCall w = (out, w') \<Longrightarrow> R w w') \<Longrightarrow>
         R w (world (retry_loop apiCall random m b c w atts ds))"
proof (induction apiCall random m b c w atts ds rule: retry_loop.induct)
  case (1 apiCall random m b c w atts ds)
  note step = "1.prems"
  show ?case
  proof (cases "int c \<le> m")
    case False
    then show ?thesis by (simp add: retry_loop.simps refl)
  next
    case le: True
    obtain out w' where ac: "apiCall w = (out, w')" by (cases "apiCall w")
    have s: "R w w'" by (rule step[OF ac])
    show ?thesis
    proof (cases out)
      case (Resolved v)
      with le ac s show ?thesis by (simp add: retry_loop.simps)
    next
      case (Rejected e)
      show ?thesis
      proof (cases "\<not> isRetryableError e \<or> int c \<ge> m")
        case True
        with le ac Rejected s show ?thesis by (auto simp add: retry_loop.simps)
      next
        case False
        have eq: "retry_loop apiCall random m b c w atts ds =
            retry_loop apiCall random m b (c + 1) w' (atts @ [Rejected e])
                (ds @ [backoffDelay c (random c) b])"
          using le ac Rejected False by (subst retry_loop.simps) simp
        have "R w' (world (retry_loop apiCall random m b (c + 1) w' (atts @ [Rejected e])
                (ds @ [backoffDelay c (random c) b])))"
          by (rule "1.IH"[OF le ac[symmetric] Rejected False step])
        with s show ?thesis unfolding eq by (rule trans)
      qed
    qed
  qed
qed

lemma length_run_calls: "length (fst (run_calls apiCall w n)) = n"
proof (induction n arbitrary: w)
  case 0
  show ?case by simp
next
  case (Suc n)
  obtain out w' where a: "apiCall w = (out, w')" by (cases "apiCall w")
  obtain outs w'' where b: "run_calls apiCall w' n = (outs, w'')" by (cases "run_calls apiCall w' n")
  from Suc[of w'] b have "length outs = n" by simp
  with a b show ?case by simp
qed

lemma retry_loop_calls:
  "\<exists>n. attempts (retry_loop apiCall random m b c w atts ds) = atts @ fst (run_calls apiCall w n) \<and>
       world (retry_loop apiCall random m b c w atts ds) = snd (run_calls apiCall w n)"
proof (induction apiCall random m b c w atts ds rule: retry_loop.induct)
  case (1 apiCall random m b c w atts ds)
  show ?case
  proof (cases "int c \<le> m")
    case False
    then have "attempts (retry_loop apiCall random m b c w atts ds) = atts @ fst (run_calls apiCall w 0) \<and>
       world (retry_loop apiCall random m b c w atts ds) = snd (run_calls apiCall w 0)"
      by (simp add: retry_loop.simps)
    then show ?thesis by blast
  next
    case le: True
    obtain out w' where ac: "apiCall w = (out, w')" by (cases "apiCall w")
    have one: "run_calls apiCall w (Suc 0) = ([out], w')" using ac by simp
    show ?thesis
    proof (cases out)
      case (Resolved v)
      with le ac have "attempts (retry_loop apiCall random m b c w atts ds)
            = atts @ fst (run_calls apiCall w (Suc 0)) \<and>
          world (retry_loop apiCall random m b c w atts ds) = snd (run_calls apiCall w (Suc 0))"
        by (simp add: retry_loop.simps)
      then show ?thesis by blast
    next
      case (Rejected e)
      show ?thesis
      proof (cases "\<not> isRetryableError e \<or> int c \<ge> m")
        case True
        with le ac Rejected have "attempts (retry_loop apiCall random m b c w atts ds)
              = atts @ fst (run_calls apiCall w (Suc 0)) \<and>
            world (retry_loop apiCall random m b c w atts ds) = snd (run_calls apiCall w (Suc 0))"
          by (auto simp add: retry_loop.simps)
        then show ?thesis by blast
      next
        case False
        have eq: "retry_loop apiCall random m b c w atts ds =
            retry_loop apiCall random m b (c + 1) w' (atts @ [Rejected e])
                (ds @ [backoffDelay c (random c) b])"
          using le ac Rejected False by (subst retry_loop.simps) simp
        from "1.IH"[OF le ac[symmetric] Rejected False] obtain n where
          n: "attempts (retry_loop apiCall random m b (c + 1) w' (atts @ [Rejected e])
                (ds @ [backoffDelay c (random c) b])) = (atts @ [Rejected e]) @ fst (run_calls apiCall w' n)"
             "world (retry_loop apiCall random m b (c + 1) w' (atts @ [Rejected e])
                (ds @ [backoffDelay c (random c) b])) = snd (run_calls apiCall w' n)"
          by blast
        have "attempts (retry_loop apiCall random m b c w atts ds)
                = atts @ fst (run_calls apiCall w (Suc n)) \<and>
              world (retry_loop apiCall random m b c w atts ds) = snd (run_calls apiCall w (Suc n))"
          unfolding eq using n ac Rejected by (simp split: prod.splits)
        then show ?thesis by blast
      qed
    qed
  qed
qed

text \<open>
  Claim C1. For every wrapped operation and every error it throws, the executor treats
  the error as retryable exactly when its code is 429, 500, 502, 503 or 504, or its
  message contains \<open>Quota exceeded\<close> or \<open>Too many requests\<close>. With a policy of
  \<open>maxRetries \<ge> 0\<close>: what the run records is what the operation did, its outcomes
  from the first invocation on and the world after the last one; the operation is
  invoked at least once and at most \<open>maxRetries + 1\<close> times; every invocation that was
  followed by another one failed with a retryable error, so a non-retryable error is
  never retried; the caller gets the value of the last invocation, or the error it
  threw, and an error that is propagated is non-retryable or is that of invocation
  number \<open>maxRetries + 1\<close>; one delay is slept between two invocations. In particular
  a non-retryable error of the first invocation is propagated at once, after that one
  invocation and with no delay.
\<close>

theorem retryWithBackoff_retry_policy:
  assumes m: "maxRetriesConfig = (case customMaxRetries of None \<Rightarrow> maxRetries cfg | Some m \<Rightarrow> m)"
      and nonneg: "0 \<le> maxRetriesConfig"
      and r: "r = retryWithBackoff cfg apiCall random customMaxRetries customMaxBackoff w"
  shows "(\<forall>e. isRetryableError e \<longleftrightarrow>
            (code e \<in> {NumCode 429, NumCode 500, NumCode 502, NumCode 503, NumCode 504} \<or>
             (\<exists>m. message e = Some m \<and>
                (str_includes m ''Quota exceeded'' \<or> str_includes m ''Too many requests'')))) \<and>
         (attempts r, world r) = run_calls apiCall w (length (attempts r)) \<and>
         attempts r \<noteq> [] \<and> int (length (attempts r)) \<le> maxRetriesConfig + 1 \<and>
         (\<forall>i. i + 1 < length (attempts r) \<longrightarrow>
            (\<exists>e. attempts r ! i = Rejected e \<and> isRetryableError e)) \<and>
         (\<forall>v. last (attempts r) = Resolved v \<longrightarrow> result r = Returned v) \<and>
         (\<forall>e. last (attempts r) = Rejected e \<longrightarrow>
            result r = Threw e \<and>
            (\<not> isRetryableError e \<or> int (length (attempts r)) = maxRetriesConfig + 1)) \<and>
         length (delays r) = length (attempts r) - 1 \<and>
         (\<forall>e w'. apiCall w = (Rejected e, w') \<and> \<not> isRetryableError e \<longrightarrow>
            result r = Threw e \<and> world r = w' \<and> attempts r = [Rejected e] \<and> delays r = []) \<and>
         (\<forall>v w'. apiCall w = (Resolved v, w') \<longrightarrow>
            result r = Returned v \<and> world r = w' \<and> attempts r = [Resolved v] \<and> delays r = [])"
proof -
  define b where "b = (case customMaxBackoff of None \<Rightarrow> maxBackoffMs cfg | Some b \<Rightarrow> b)"
  have r': "r = retry_loop apiCall random maxRetriesConfig b 0 w [] []"
    by (simp add: r retryWithBackoff_def m b_def)
  obtain new where
    a0: "attempts r = [] @ new" and l0: "length new \<le> nat (maxRetriesConfig + 1 - int 0)"
    and bl: "\<forall>x \<in> set (butlast new). \<exists>e. x = Rejected e \<and> isRetryableError e"
    and d0: "delays r = [] @ map (\<lambda>n. backoffDelay n (random n) b) [0 ..< 0 + (length new - 1)]"
    and la0: "int 0 \<le> maxRetriesConfig \<longrightarrow> new \<noteq> [] \<and>
        (case last new of Resolved v \<Rightarrow> result r = Returned v
         | Rejected e \<Rightarrow> result r = Threw e \<and>
             (\<not> isRetryableError e \<or> int 0 + int (length new) = maxRetriesConfig + 1))"
    using retry_loop_attempts[of apiCall random maxRetriesConfig b 0 w "[]" "[]"]
    unfolding r' by blast
  have a: "attempts r = new" using a0 by simp
  have l: "length new \<le> nat (maxRetriesConfig + 1)" using l0 by simp
  have d: "delays r = map (\<lambda>n. backoffDelay n (random n) b) [0 ..< length new - 1]"
    using d0 by simp
  have ne: "new \<noteq> []" using la0 nonneg by simp
  have la: "case last new of Resolved v \<Rightarrow> result r = Returned v
             | Rejected e \<Rightarrow> result r = Threw e \<and>
                 (\<not> isRetryableError e \<or> int (length new) = maxRetriesConfig + 1)"
    using la0 nonneg by (auto split: outcome.splits)
  have mid: "\<exists>e. new ! i = Rejected e \<and> isRetryableError e" if "i + 1 < length new" for i
  proof -
    from that have "new ! i = butlast new ! i" by (simp add: nth_butlast)
    moreover from that have "butlast new ! i \<in> set (butlast new)" by simp
    ultimately show ?thesis using bl by metis
  qed
  obtain n where n: "attempts r = [] @ fst (run_calls apiCall w n)"
      "world r = snd (run_calls apiCall w n)"
    using retry_loop_calls[of apiCall random maxRetriesConfig b 0 w "[]" "[]"]
    unfolding r' by blast
  have "length (attempts r) = n" using n(1) by (simp add: length_run_calls)
  then have calls: "(attempts r, world r) = run_calls apiCall w (length (attempts r))"
    using n by simp
  have fatal: "result r = Threw e \<and> world r = w' \<and> attempts r = [Rejected e] \<and> delays r = []"
    if "apiCall w = (Rejected e, w') \<and> \<not> isRetryableError e" for e w'
    using that nonneg unfolding r' by (simp add: retry_loop.simps)
  have ok: "result r = Returned v \<and> world r = w' \<and> attempts r = [Resolved v] \<and> delays r = []"
    if "apiCall w = (Resolved v, w')" for v w'
    using that nonneg unfolding r' by (simp add: retry_loop.simps)
  have main: "attempts r \<noteq> [] \<and> int (length (attempts r)) \<le> maxRetriesConfig + 1 \<and>
         (\<forall>i. i + 1 < length (attempts r) \<longrightarrow>
            (\<exists>e. attempts r ! i = Rejected e \<and> isRetryableError e)) \<and>
         (\<forall>v. last (attempts r) = Resolved v \<longrightarrow> result r = Returned v) \<and>
         (\<forall>e. last (attempts r) = Rejected e \<longrightarrow>
            result r = Threw e \<and>
            (\<not> isRetryableError e \<or> int (length (attempts r)) = maxRetriesConfig + 1)) \<and>
         length (delays r) = length (attempts r) - 1"
    using a l ne la mid d nonneg by (auto split: outcome.splits)
  have cls: "\<forall>e. isRetryableError e \<longleftrightarrow>
            (code e \<in> {NumCode 429, NumCode 500, NumCode 502, NumCode 503, NumCode 504} \<or>
             (\<exists>m. message e = Some m \<and>
                (str_includes m ''Quota exceeded'' \<or> str_includes m ''Too many requests'')))"
    using isRetryableError_iff by blast
  from fatal have fatal': "\<forall>e w'. apiCall w = (Rejected e, w') \<and> \<not> isRetryableError e \<longrightarrow>
            result r = Threw e \<and> world r = w' \<and> attempts r = [Rejected e] \<and> delays r = []"
    by blast
  from ok have ok': "\<forall>v w'. apiCall w = (Resolved v, w') \<longrightarrow>
            result r = Returned v \<and> world r = w' \<and> attempts r = [Resolved v] \<and> delays r = []"
    by blast
  show ?thesis
    using cls calls main fatal' ok' by (intro conjI) blast+
qed

text \<open>The policy at work: three invocations for \<open>maxRetries = 2\<close>, then the error.\<close>

theorem retryWithBackoff_retry_policy_witness:
  "(0::int) \<le> 2 \<and>
   result (retryWithBackoff \<lparr>maxRetries = 2, maxBackoffMs = 64000\<rparr>
             (scripted always_unavailable) (\<lambda>n. 1 / 2) None None 0) = Threw unavailable \<and>
   length (attempts (retryWithBackoff \<lparr>maxRetries = 2, maxBackoffMs = 64000\<rparr>
             (scripted always_unavailable) (\<lambda>n. 1 / 2) None None 0)) = 3 \<and>
   isRetryableError unavailable"
proof -
  have h: "(0::int) \<le> 2" by simp
  have m: "(2::int) = (case None of None \<Rightarrow> maxRetries \<lparr>maxRetries = 2, maxBackoffMs = 64000\<rparr>
                        | Some m \<Rightarrow> m)" by simp
  have la: "last (attempts (retryWithBackoff \<lparr>maxRetries = 2, maxBackoffMs = 64000\<rparr>
             (scripted always_unavailable) (\<lambda>n. 1 / 2) None None 0)) = Rejected unavailable"
    by (simp add: retryWithBackoff_def retry_loop.simps scripted_def always_unavailable_def
          isRetryableError_def unavailable_def)
  have re: "isRetryableError unavailable"
    by (simp add: isRetryableError_def unavailable_def)
  show ?thesis
    using retryWithBackoff_retry_policy [OF m h refl, of "scripted always_unavailable"
        "\<lambda>n. 1 / 2" None 0] la re
    by auto
qed

text \<open>
  Claim C2. For every retry number \<open>n\<close>, counted from 0, and every jitter draw in
  \<open>[0, 1)\<close> (scaled to \<open>[0, 1000)\<close> ms), the delay slept before the next attempt is
  \<open>min (2 ^ n * 1000 + jitter) maxBackoffMs\<close>; hence, whatever the draws, the delays
  of one run are non-decreasing and none exceeds \<open>maxBackoffMs\<close>.
\<close>

theorem backoff_delays_capped_nondecreasing:
  assumes jitter: "\<forall>n. 0 \<le> random n \<and> random n < 1"
      and b: "maxBackoffConfig = (case customMaxBackoff of None \<Rightarrow> maxBackoffMs cfg | Some b \<Rightarrow> b)"
      and r: "r = retryWithBackoff cfg apiCall random customMaxRetries customMaxBackoff w"
  shows "(\<forall>n < length (delays r).
            delays r ! n = min (2 ^ n * 1000 + random n * 1000) maxBackoffConfig) \<and>
         sorted (delays r) \<and>
         (\<forall>d \<in> set (delays r). d \<le> maxBackoffConfig)"
proof -
  define m where "m = (case customMaxRetries of None \<Rightarrow> maxRetries cfg | Some m \<Rightarrow> m)"
  have r': "r = retry_loop apiCall random m maxBackoffConfig 0 w [] []"
    by (simp add: r retryWithBackoff_def m_def b)
  obtain new where a0: "attempts r = [] @ new" and
    d0: "delays r = [] @ map (\<lambda>n. backoffDelay n (random n) maxBackoffConfig)
           [0 ..< 0 + (length new - 1)]"
    using retry_loop_attempts[of apiCall random m maxBackoffConfig 0 w "[]" "[]"]
    unfolding r' by blast
  define k where "k = length new - 1"
  have d: "delays r = map (\<lambda>n. backoffDelay n (random n) maxBackoffConfig) [0 ..< k]"
    using d0 by (simp add: k_def)
  have nth: "delays r ! n = backoffDelay n (random n) maxBackoffConfig" if "n < length (delays r)" for n
    using that by (simp add: d)
  have "sorted (delays r)"
    unfolding sorted_iff_nth_mono using nth backoffDelay_mono[OF jitter] by simp
  moreover have "\<forall>d \<in> set (delays r). d \<le> maxBackoffConfig"
    by (auto simp: d backoffDelay_def Let_def)
  ultimately show ?thesis using nth by (simp add: backoffDelay_def Let_def)
qed

text \<open>Two retries under a cap of two seconds.\<close>

theorem backoff_delays_capped_nondecreasing_witness:
  "(\<forall>n::nat. (0::real) \<le> 1 / 2 \<and> (1 / 2 :: real) < 1) \<and>
   delays (retryWithBackoff \<lparr>maxRetries = 5, maxBackoffMs = 2000\<rparr>
             (scripted unavailable_twice) (\<lambda>n. 1 / 2) None None 0) = [1500, 2000] \<and>
   sorted (delays (retryWithBackoff \<lparr>maxRetries = 5, maxBackoffMs = 2000\<rparr>
             (scripted unavailable_twice) (\<lambda>n. 1 / 2) None None 0))"
proof -
  have h: "\<forall>n::nat. (0::real) \<le> (\<lambda>n. 1 / 2) n \<and> (\<lambda>n. 1 / 2 :: real) n < 1" by simp
  have b: "(2000::real) = (case None of None \<Rightarrow> maxBackoffMs \<lparr>maxRetries = 5, maxBackoffMs = 2000\<rparr>
                        | Some b \<Rightarrow> b)" by simp
  have d: "delays (retryWithBackoff \<lparr>maxRetries = 5, maxBackoffMs = 2000\<rparr>
             (scripted unavailable_twice) (\<lambda>n. 1 / 2) None None 0) = [1500, 2000]"
    by (simp add: retryWithBackoff_def retry_loop.simps scripted_def unavailable_twice_def
          isRetryableError_def unavailable_def backoffDelay_def)
  show ?thesis
    using backoff_delays_capped_nondecreasing [OF h b refl, of "scripted unavailable_twice" None 0] d
    by simp
qed

section \<open>Properties of the merge engine\<close>

lemma merge_loop_rows:
  "foldl (\<lambda>mergedData i.
            if i = 0 then mergedData
            else if i \<le> length p
                 then mergedData @ [Some (p ! (i - 1))]
                 else mergedData @ [Some (ex ! i)])
         [h] [0 ..< n]
   = h # map (\<lambda>i. Some (if i \<le> length p then p ! (i - 1) else ex ! i)) [1 ..< n]"
proof (induction n)
  case 0
  show ?case by simp
next
  case (Suc n)
  show ?case
  proof (cases "n = 0")
    case True
    then show ?thesis by simp
  next
    case False
    then have "[1 ..< Suc n] = [1 ..< n] @ [n]" by simp
    with Suc False show ?thesis by simp
  qed
qed

lemma mergeData_rows:
  assumes "processNewData papa (Some h) newData = Inr p"
  shows "mergeData papa (h # rest) newData =
           Inr (Some h # map (\<lambda>i. Some (if i \<le> length p then p ! (i - 1) else (h # rest) ! i))
                            [1 ..< Suc (length rest)])"
  using assms by (simp add: mergeData_def merge_loop_rows del: upt_Suc)

lemma processNewData_Grid: "processNewData papa hs (Grid g) = Inr g"
  by (simp add: processNewData_def split: list.splits)

text \<open>
  Claim C3. For every non-empty existing grid and every new data whose normalized form is
  the grid \<open>normalizedNewData\<close> (a grid is its own normalized form), \<open>mergeData\<close>
  returns a grid of the length of the existing grid; row 0 is row 0 of the existing grid;
  for every \<open>i\<close> from 1 to the last index of the existing grid, row \<open>i\<close> is
  \<open>normalizedNewData[i - 1]\<close> when \<open>i \<le> len(normalizedNewData)\<close> and row \<open>i\<close> of the
  existing grid otherwise; so rows of the new data beyond the existing grid's length are
  not appended. The grid of the spec's example merges as the spec says.
\<close>

theorem mergeData_positional:
  "(\<forall>papa existingGrid newData normalizedNewData.
      existingGrid \<noteq> [] \<and>
      processNewData papa (Some (hd existingGrid)) newData = Inr normalizedNewData \<longrightarrow>
      (\<exists>out. mergeData papa existingGrid newData = Inr out \<and>
         length out = length existingGrid \<and>
         out ! 0 = Some (existingGrid ! 0) \<and>
         (\<forall>i. 1 \<le> i \<and> i < length existingGrid \<longrightarrow>
            out ! i = Some (if i \<le> length normalizedNewData
                            then normalizedNewData ! (i - 1) else existingGrid ! i)))) \<and>
   (\<forall>papa hs g. processNewData papa hs (Grid g) = Inr g) \<and>
   mergeData no_parse
      [[JStr ''h1'', JStr ''h2''], [JStr ''a'', JStr ''b''],
       [JStr ''c'', JStr ''d''], [JStr ''e'', JStr ''f'']]
      (Grid [[JStr ''x'', JStr ''y'']])
    = Inr [Some [JStr ''h1'', JStr ''h2''], Some [JStr ''x'', JStr ''y''],
           Some [JStr ''c'', JStr ''d''], Some [JStr ''e'', JStr ''f'']]"
proof (intro conjI allI impI)
  fix papa :: "string \<Rightarrow> grid" and existingGrid newData normalizedNewData
  assume a: "existingGrid \<noteq> [] \<and>
      processNewData papa (Some (hd existingGrid)) newData = Inr normalizedNewData"
  then obtain h rest where e: "existingGrid = h # rest" by (cases existingGrid) auto
  let ?row = "\<lambda>i. Some (if i \<le> length normalizedNewData
                          then normalizedNewData ! (i - 1) else existingGrid ! i)"
  let ?out = "Some h # map ?row [1 ..< Suc (length rest)]"
  have m: "mergeData papa existingGrid newData = Inr ?out"
    using a mergeData_rows[of papa h newData normalizedNewData rest] by (simp add: e)
  have nth: "?out ! i = ?row i" if "1 \<le> i" "i < length existingGrid" for i
  proof -
    from that obtain j where j: "i = Suc j" by (cases i) auto
    with that have "j < length [1 ..< Suc (length rest)]" by (simp add: e)
    then have "map ?row [1 ..< Suc (length rest)] ! j = ?row ([1 ..< Suc (length rest)] ! j)"
      by (rule nth_map)
    also have "[1 ..< Suc (length rest)] ! j = Suc j"
      using that j by (simp add: e nth_upt del: upt_Suc)
    finally show ?thesis by (simp add: j)
  qed
  show "\<exists>out. mergeData papa existingGrid newData = Inr out \<and>
         length out = length existingGrid \<and>
         out ! 0 = Some (existingGrid ! 0) \<and>
         (\<forall>i. 1 \<le> i \<and> i < length existingGrid \<longrightarrow>
            out ! i = Some (if i \<le> length normalizedNewData
                            then normalizedNewData ! (i - 1) else existingGrid ! i))"
  proof (intro exI[of _ ?out] conjI allI impI)
    show "mergeData papa existingGrid newData = Inr ?out" by (rule m)
    show "length ?out = length existingGrid" by (simp add: e del: upt_Suc)
    show "?out ! 0 = Some (existingGrid ! 0)" by (simp add: e)
    fix i assume "1 \<le> i \<and> i < length existingGrid"
    then show "?out ! i = ?row i" using nth by blast
  qed
next
  fix papa :: "string \<Rightarrow> grid" and hs g
  show "processNewData papa hs (Grid g) = Inr g" by (rule processNewData_Grid)
next
  show "mergeData no_parse
      [[JStr ''h1'', JStr ''h2''], [JStr ''a'', JStr ''b''],
       [JStr ''c'', JStr ''d''], [JStr ''e'', JStr ''f'']]
      (Grid [[JStr ''x'', JStr ''y'']])
    = Inr [Some [JStr ''h1'', JStr ''h2''], Some [JStr ''x'', JStr ''y''],
           Some [JStr ''c'', JStr ''d''], Some [JStr ''e'', JStr ''f'']]"
    by (simp add: mergeData_def processNewData_def upt_rec)
qed

text \<open>Three new rows onto a header and two rows: the third new row is dropped.\<close>

theorem mergeData_positional_witness:
  "[[JStr ''h''], [JStr ''a''], [JStr ''c'']] \<noteq> [] \<and>
   processNewData no_parse (Some (hd [[JStr ''h''], [JStr ''a''], [JStr ''c'']]))
      (Grid [[JStr ''x''], [JStr ''y''], [JStr ''z'']])
     = Inr [[JStr ''x''], [JStr ''y''], [JStr ''z'']] \<and>
   mergeData no_parse [[JStr ''h''], [JStr ''a''], [JStr ''c'']]
      (Grid [[JStr ''x''], [JStr ''y''], [JStr ''z'']])
     = Inr [Some [JStr ''h''], Some [JStr ''x''], Some [JStr ''y'']]"
proof -
  let ?ex = "[[JStr ''h''], [JStr ''a''], [JStr ''c'']]"
  let ?new = "[[JStr ''x''], [JStr ''y''], [JStr ''z'']]"
  have h: "?ex \<noteq> [] \<and> processNewData no_parse (Some (hd ?ex)) (Grid ?new) = Inr ?new"
    by (simp add: processNewData_def)
  from mergeData_positional [THEN conjunct1, rule_format, OF h]
  obtain out where m: "mergeData no_parse ?ex (Grid ?new) = Inr out"
    and l: "length out = length ?ex"
    and z: "out ! 0 = Some (?ex ! 0)"
    and r: "\<And>i. 1 \<le> i \<and> i < length ?ex \<Longrightarrow>
              out ! i = Some (if i \<le> length ?new then ?new ! (i - 1) else ?ex ! i)"
    by blast
  from l obtain a b c where o: "out = [a, b, c]"
    by (cases out; cases "tl out"; cases "tl (tl out)") auto
  from z r[of 1] r[of 2] have "out = [Some [JStr ''h''], Some [JStr ''x''], Some [JStr ''y'']]"
    by (simp add: o)
  with h m show ?thesis by simp
qed

text \<open>
  What the projection does in general: a cell per header column, the value \<open>item[header]\<close>
  when it is truthy and the empty string otherwise.
\<close>

lemma project_cell:
  assumes "j < length h"
  shows "project h item ! j =
           (if truthy (get_prop item (js_toString (h ! j)))
            then get_prop item (js_toString (h ! j)) else JStr [])"
  using assms by (simp add: project_def js_or_def)

text \<open>
  Claim C4, at the input where the code departs from it. The record has the key
  \<open>count\<close> with the value 0, the existing header has the column \<open>count\<close>; the merged
  cell is the empty string and not the record's value: \<open>item[header] || ''\<close> replaces
  every falsy value, not only a missing one.
\<close>

theorem mergeData_falsy_value_dropped:
  "get_prop [(''count'', JNum ''0'')] ''count'' = JNum ''0'' \<and>
   mergeData no_parse [[JStr ''count''], [JStr ''7'']] (Records [[(''count'', JNum ''0'')]])
     = Inr [Some [JStr ''count''], Some [JStr []]] \<and>
   JStr [] \<noteq> JNum ''0''"
  by (simp add: mergeData_def processNewData_def project_def js_or_def get_prop_def truthy_def
        js_toString_def upt_rec)

section \<open>Properties of the format normalizer\<close>












lemma set_add_fold:
  "set (foldl set_add ks xs) = set ks \<union> set xs \<and> (distinct ks \<longrightarrow> distinct (foldl set_add ks xs))"
  by (induction xs arbitrary: ks) (auto simp: set_add_def)

lemma getUniqueKeys_fold:
  "set (foldl (\<lambda>keysSet item. foldl set_add keysSet (map fst item)) ks data)
     = set ks \<union> (\<Union>item \<in> set data. fst ` set item) \<and>
   (distinct ks \<longrightarrow> distinct (foldl (\<lambda>keysSet item. foldl set_add keysSet (map fst item)) ks data))"
proof (induction data arbitrary: ks)
  case Nil
  show ?case by simp
next
  case (Cons item data)
  show ?case
    using Cons[of "foldl set_add ks (map fst item)"] set_add_fold[of ks "map fst item"]
    by auto
qed

lemma set_getUniqueKeys: "set (getUniqueKeys data) = (\<Union>item \<in> set data. fst ` set item)"
  using getUniqueKeys_fold[of "[]" data] by (simp add: getUniqueKeys_def)

























section \<open>Properties of the tab color\<close>

lemma hex_not_space: "hex_digit_value c = Some v \<Longrightarrow> \<not> is_space c"
  by (auto simp: is_space_def hex_digit_value_def)

lemma hex_range: "hex_digit_value c = Some v \<Longrightarrow> v < 16"
  by (auto simp: hex_digit_value_def Let_def split: if_splits)

lemma hex_not_sign: "hex_digit_value c = Some v \<Longrightarrow> c \<noteq> CHR ''-'' \<and> c \<noteq> CHR ''+'' \<and> c \<noteq> CHR ''x'' \<and> c \<noteq> CHR ''X''"
  by (auto simp: hex_digit_value_def)

lemma parseInt16_two:
  assumes "hex_digit_value a = Some va" "hex_digit_value b = Some vb"
  shows "parseInt16 [a, b] = Some (int (16 * va + vb))"
  using assms hex_not_space[OF assms(1)] hex_not_sign[OF assms(1)] hex_not_sign[OF assms(2)]
  by (simp add: parseInt16_def)

text \<open>
  Claim C9, as the code has it. For every color string made of \<open>#\<close> followed by six
  hexadecimal digits, the form the option is documented in, the tab color of the
  \<open>addSheet\<close> request has its red, green and blue channels equal to the values of the
  first, second and third pair of digits, each divided by 255, and each is a fraction
  between 0 and 1.
\<close>

theorem addTab_tabColor_channels:
  assumes r: "hex_digit_value r1 = Some vr1" "hex_digit_value r2 = Some vr2"
      and g: "hex_digit_value g1 = Some vg1" "hex_digit_value g2 = Some vg2"
      and b: "hex_digit_value b1 = Some vb1" "hex_digit_value b2 = Some vb2"
  shows "tabColor (addSheetRequest tabName
            (options\<lparr>opt_tabColor := Some (CHR ''#'' # [r1, r2, g1, g2, b1, b2])\<rparr>))
           = Some \<lparr>red = Some (real (16 * vr1 + vr2) / 255),
                   green = Some (real (16 * vg1 + vg2) / 255),
                   blue = Some (real (16 * vb1 + vb2) / 255)\<rparr> \<and>
         0 \<le> real (16 * vr1 + vr2) / 255 \<and> real (16 * vr1 + vr2) / 255 \<le> 1 \<and>
         0 \<le> real (16 * vg1 + vg2) / 255 \<and> real (16 * vg1 + vg2) / 255 \<le> 1 \<and>
         0 \<le> real (16 * vb1 + vb2) / 255 \<and> real (16 * vb1 + vb2) / 255 \<le> 1"
proof -
  have sl: "slice (CHR ''#'' # [r1, r2, g1, g2, b1, b2]) 1 3 = [r1, r2]"
           "slice (CHR ''#'' # [r1, r2, g1, g2, b1, b2]) 3 5 = [g1, g2]"
           "slice (CHR ''#'' # [r1, r2, g1, g2, b1, b2]) 5 7 = [b1, b2]"
    by (simp_all add: slice_def numeral_eq_Suc)
  have ch: "channel [r1, r2] = Some (real (16 * vr1 + vr2) / 255)"
           "channel [g1, g2] = Some (real (16 * vg1 + vg2) / 255)"
           "channel [b1, b2] = Some (real (16 * vb1 + vb2) / 255)"
    using parseInt16_two[OF r] parseInt16_two[OF g] parseInt16_two[OF b]
    by (simp_all add: channel_def)
  have bound: "16 * vr1 + vr2 \<le> 255" "16 * vg1 + vg2 \<le> 255" "16 * vb1 + vb2 \<le> 255"
    using hex_range[OF r(1)] hex_range[OF r(2)] hex_range[OF g(1)] hex_range[OF g(2)]
          hex_range[OF b(1)] hex_range[OF b(2)]
    by simp_all
  have le: "real n / 255 \<le> 1" if "n \<le> 255" for n :: nat
    using that by simp
  show ?thesis
    using sl ch le[OF bound(1)] le[OF bound(2)] le[OF bound(3)]
    by (simp add: addSheetRequest_def)
qed

text \<open>The color \<open>#FF0080\<close>.\<close>

theorem addTab_tabColor_channels_witness:
  "hex_digit_value CHR ''F'' = Some 15 \<and> hex_digit_value CHR ''0'' = Some 0 \<and>
   hex_digit_value CHR ''8'' = Some 8 \<and>
   tabColor (addSheetRequest ''Reports''
      \<lparr>opt_index = Some 1, opt_hidden = Some False, opt_tabColor = Some ''#FF0080''\<rparr>)
     = Some \<lparr>red = Some 1, green = Some 0, blue = Some (128 / 255)\<rparr>"
proof -
  have h: "hex_digit_value CHR ''F'' = Some 15" "hex_digit_value CHR ''0'' = Some 0"
          "hex_digit_value CHR ''8'' = Some 8"
    by (simp_all add: hex_digit_value_def)
  show ?thesis
    using addTab_tabColor_channels [OF h(1) h(1) h(2) h(2) h(3) h(2), of "''Reports''"
        "\<lparr>opt_index = Some 1, opt_hidden = Some False, opt_tabColor = None\<rparr>"] h
    by simp
qed

text \<open>
  Claim C9 as stated fails at a string of six hexadecimal digits alone: the code takes
  the characters 1 to 2, 3 to 4 and 5 to 6, so \<open>FF0080\<close> gives red 240/255 from \<open>F0\<close>,
  green 8/255 from \<open>08\<close> and blue 0 from the one digit \<open>0\<close>, where the pairs \<open>FF\<close>,
  \<open>00\<close> and \<open>80\<close> are worth 255/255, 0 and 128/255.
\<close>

theorem addTab_tabColor_without_hash:
  "tabColor (addSheetRequest ''Reports''
      \<lparr>opt_index = None, opt_hidden = None, opt_tabColor = Some ''FF0080''\<rparr>)
     = Some \<lparr>red = Some (240 / 255), green = Some (8 / 255), blue = Some 0\<rparr> \<and>
   (240 / 255 :: real) \<noteq> 255 / 255 \<and> (8 / 255 :: real) \<noteq> 0 / 255 \<and> (0 :: real) \<noteq> 128 / 255"
  by (simp add: addSheetRequest_def slice_def channel_def parseInt16_def hex_digit_value_def
        is_space_def numeral_eq_Suc)

section \<open>Properties of the facade\<close>

lemma request_resolved:
  assumes "remote (fst st) = (Resolved v, w')" "0 \<le> maxRetries (retry_config lib)"
  shows "request lib random ev remote st = (Resolved (Some v), (w', snd st @ [ev]))"
  using assms by (simp add: request_def awaited_def logged_def retry_first_resolved)

lemma request_fatal:
  assumes "remote (fst st) = (Rejected e, w')" "\<not> isRetryableError e"
    "0 \<le> maxRetries (retry_config lib)"
  shows "request lib random ev remote st = (Rejected e, (w', snd st @ [ev]))"
  using assms by (simp add: request_def awaited_def logged_def retry_first_fatal)

lemma gone_fatal: "\<not> isRetryableError gone"
  by (simp add: isRetryableError_def isQuotaError_def message_includes_def gone_def)

lemma no_recreation_refl: "no_recreation st st"
  by (simp add: no_recreation_def)

lemma no_recreation_trans:
  "no_recreation a b \<Longrightarrow> no_recreation b c \<Longrightarrow> no_recreation a c"
  by (auto simp: no_recreation_def)

lemma no_recreation_count:
  "no_recreation st st' \<Longrightarrow> count_list (snd st') EvCreateSheet = count_list (snd st) EvCreateSheet"
  by (auto simp: no_recreation_def)

lemma request_log:
  assumes "ev \<noteq> EvCreateSheet" "request lib random ev remote st = (out, st')"
  shows "no_recreation st st'"
proof -
  let ?r = "retryWithBackoff (retry_config lib) (logged ev remote) random None None st"
  have "no_recreation st (world ?r)"
    unfolding retryWithBackoff_def Let_def
    by (rule retry_loop_invariant[where R = no_recreation])
       (use assms(1) in \<open>auto simp: logged_def no_recreation_def split: prod.splits\<close>)
  moreover have "st' = world ?r"
    using assms(2) by (auto simp: request_def awaited_def split: completion.splits)
  ultimately show ?thesis by simp
qed

lemma write_values_log:
  assumes "write_values lib api random spreadsheetId range_text vals st = (out, st')"
  shows "no_recreation st st'"
proof -
  obtain o1 s1 where r: "request lib random (EvValuesUpdate spreadsheetId range_text)
             (values_update api spreadsheetId range_text vals) st = (o1, s1)"
    by (cases "request lib random (EvValuesUpdate spreadsheetId range_text)
             (values_update api spreadsheetId range_text vals) st")
  have "no_recreation st s1" by (rule request_log[OF _ r]) simp
  moreover have "st' = s1"
    using assms r by (auto simp: write_values_def split: outcome.splits option.splits)
  ultimately show ?thesis by simp
qed

lemma write_try_log:
  assumes "write_try lib api papa_parse random spreadsheetId csv tab st = (out, st')"
  shows "no_recreation st st'"
proof (cases "tab_given tab")
  case False
  with assms show ?thesis by (auto simp: write_try_def Let_def intro: write_values_log)
next
  case True
  obtain o1 s1 where r1: "request lib random (EvSpreadsheetsGet spreadsheetId)
                   (spreadsheets_get api spreadsheetId) st = (o1, s1)"
    by (cases "request lib random (EvSpreadsheetsGet spreadsheetId)
                   (spreadsheets_get api spreadsheetId) st")
  have n1: "no_recreation st s1" by (rule request_log[OF _ r1]) simp
  obtain o2 s2 where r2: "request lib random (EvAddSheet spreadsheetId (tab_text tab))
                              (spreadsheets_addSheet api spreadsheetId (tab_text tab)) s1 = (o2, s2)"
    by (cases "request lib random (EvAddSheet spreadsheetId (tab_text tab))
                              (spreadsheets_addSheet api spreadsheetId (tab_text tab)) s1")
  have n2: "no_recreation s1 s2" by (rule request_log[OF _ r2]) simp
  show ?thesis
    using assms True r1 r2 n1 n2 no_recreation_trans[OF n1 n2]
    by (auto simp: write_try_def Let_def split: outcome.splits option.splits if_splits
          dest!: write_values_log intro: no_recreation_trans)
qed

lemma recreate_fresh:
  assumes "sheets lib \<noteq> None" "drive lib \<noteq> None" "createSheet tabs (fst st) = (out, w')"
  shows "recreate lib createSheet tabs st = (out, (w', snd st @ [EvCreateSheet]))"
  using assms by (auto simp: recreate_def call_def is_null_def logged_def)

text \<open>
  Claim C7, as the code has it. If the \<open>try\<close> block of \<open>writeToSheet\<close> fails with a
  not-found (404) error, the facade calls \<open>createSheet()\<close> once and calls itself with
  the new identifier and the same data; when that replay does not fail with not-found,
  its outcome is the outcome of the whole call, and exactly one spreadsheet was created.
  Nothing bounds the recovery: the replay is recovered in the same way.
\<close>

theorem writeToSheet_not_found_recovery:
  assumes lib: "sheets lib = Some api" "drive lib \<noteq> None"
      and first: "write_try lib api papa_parse random spreadsheetId (to_csv papa_unparse rows) tab st
                    = (Rejected error, st1)"
      and nf: "code error = NumCode 404"
      and created: "createSheet [] (fst st1) = (Resolved newSpreadsheetId, w2)"
      and replay: "write_try lib api papa_parse random newSpreadsheetId (to_csv papa_unparse rows) tab
                     (w2, snd st1 @ [EvCreateSheet]) = (out, st3)"
      and final: "\<forall>e. out = Rejected e \<longrightarrow> code e \<noteq> NumCode 404"
  shows "writeToSheet lib papa_parse papa_unparse createSheet random spreadsheetId rows tab st
           = Some (out, st3) \<and>
         count_list (snd st3) EvCreateSheet = count_list (snd st) EvCreateSheet + 1"
proof -
  have rc: "recreate lib createSheet [] st1 = (Resolved newSpreadsheetId, (w2, snd st1 @ [EvCreateSheet]))"
    using lib created by (simp add: recreate_fresh)
  have csv: "to_csv papa_unparse (Csv (to_csv papa_unparse rows)) = to_csv papa_unparse rows"
    by (simp add: to_csv_def)
  have second: "writeToSheet lib papa_parse papa_unparse createSheet random newSpreadsheetId
                  (Csv (to_csv papa_unparse rows)) tab (w2, snd st1 @ [EvCreateSheet]) = Some (out, st3)"
    using lib replay final
    by (subst writeToSheet.simps) (auto simp: csv split: outcome.splits)
  have one: "writeToSheet lib papa_parse papa_unparse createSheet random spreadsheetId rows tab st
           = Some (out, st3)"
    using lib first nf rc second
    by (subst writeToSheet.simps) simp
  have "count_list (snd st1) EvCreateSheet = count_list (snd st) EvCreateSheet"
    by (rule no_recreation_count[OF write_try_log[OF first]])
  moreover have "count_list (snd st3) EvCreateSheet
                   = count_list (snd (w2, snd st1 @ [EvCreateSheet])) EvCreateSheet"
    by (rule no_recreation_count[OF write_try_log[OF replay]])
  ultimately show ?thesis using one by simp
qed

text \<open>A service that answers the first write with not-found.\<close>

theorem writeToSheet_not_found_recovery_witness:
  "writeToSheet (library_of (api_gone_until 1)) one_row no_unparse fresh_sheet no_jitter
      ''lost'' (Csv ''a'') None (0, [])
     = Some (Resolved \<lparr>updatedCells = 1\<rparr>,
             (2, [EvValuesUpdate ''lost'' ''A1'', EvCreateSheet, EvValuesUpdate ''fresh'' ''A1''])) \<and>
   count_list [EvValuesUpdate ''lost'' ''A1'', EvCreateSheet, EvValuesUpdate ''fresh'' ''A1'']
      EvCreateSheet = 1"
proof -
  let ?lib = "library_of (api_gone_until 1)"
  have l: "sheets ?lib = Some (api_gone_until 1)" "drive ?lib \<noteq> None"
    by (simp_all add: library_of_def)
  have first: "write_try ?lib (api_gone_until 1) one_row no_jitter ''lost''
                 (to_csv no_unparse (Csv ''a'')) None (0, [])
                = (Rejected gone, (1, [EvValuesUpdate ''lost'' ''A1'']))"
    by (simp add: library_of_def api_gone_until_def write_try_def write_values_def
        request_def awaited_def logged_def retryWithBackoff_def retry_loop.simps to_csv_def
        tab_given_def gone_def isRetryableError_def isQuotaError_def message_includes_def)
  have nf: "code gone = NumCode 404" by (simp add: gone_def)
  have created: "fresh_sheet [] (fst (1::nat, [EvValuesUpdate ''lost'' ''A1''])) = (Resolved ''fresh'', 1)"
    by (simp add: fresh_sheet_def)
  have replay: "write_try ?lib (api_gone_until 1) one_row no_jitter ''fresh''
                 (to_csv no_unparse (Csv ''a'')) None
                 (1, snd (1::nat, [EvValuesUpdate ''lost'' ''A1'']) @ [EvCreateSheet])
                = (Resolved \<lparr>updatedCells = 1\<rparr>,
                   (2, [EvValuesUpdate ''lost'' ''A1'', EvCreateSheet, EvValuesUpdate ''fresh'' ''A1'']))"
    by (simp add: library_of_def api_gone_until_def write_try_def write_values_def
        request_def awaited_def logged_def retryWithBackoff_def retry_loop.simps to_csv_def
        tab_given_def one_row_def)
  have final: "\<forall>e. Resolved \<lparr>updatedCells = 1\<rparr> = Rejected e \<longrightarrow> code e \<noteq> NumCode 404"
    by simp
  show ?thesis
    using writeToSheet_not_found_recovery
      [where lib = "?lib" and api = "api_gone_until 1" and papa_parse = one_row
         and papa_unparse = no_unparse and random = no_jitter and createSheet = fresh_sheet
         and spreadsheetId = "''lost''" and rows = "Csv ''a''" and tab = None
         and st = "(0, [])" and ?st1.0 = "(1, [EvValuesUpdate ''lost'' ''A1''])"
         and error = gone and newSpreadsheetId = "''fresh''" and ?w2.0 = 1
         and out = "Resolved \<lparr>updatedCells = 1\<rparr>"
         and ?st3.0 = "(2, [EvValuesUpdate ''lost'' ''A1'', EvCreateSheet,
                           EvValuesUpdate ''fresh'' ''A1''])",
       OF l first nf created replay final]
    by simp
qed

lemma write_try_always_gone:
  "write_try (library_of api_always_gone) api_always_gone papa_parse random spreadsheetId csv None st
     = (Rejected gone, (Suc (fst st), snd st @ [EvValuesUpdate spreadsheetId ''A1'']))"
proof -
  have "request (library_of api_always_gone) random (EvValuesUpdate spreadsheetId ''A1'')
          (values_update api_always_gone spreadsheetId ''A1'' (map Some (papa_parse csv))) st
        = (Rejected gone, (Suc (fst st), snd st @ [EvValuesUpdate spreadsheetId ''A1'']))"
    by (rule request_fatal) (simp_all add: api_always_gone_def gone_fatal library_of_def)
  then show ?thesis
    by (simp add: write_try_def write_values_def tab_given_def)
qed

lemma writeToSheet_never_returns:
  assumes "writeToSheet lib papa_parse papa_unparse createSheet random spreadsheetId rows tab st = Some y"
  shows "\<not> (lib = library_of api_always_gone \<and> createSheet = fresh_sheet \<and> tab = None)"
proof (rule writeToSheet.raw_induct
    [where P = "\<lambda>lib papa_parse papa_unparse createSheet random spreadsheetId rows tab st y.
                  \<not> (lib = library_of api_always_gone \<and> createSheet = fresh_sheet \<and> tab = None)",
     OF _ assms])
  fix self lib papa_parse papa_unparse createSheet random spreadsheetId rows tab st y
  assume IH: "\<And>lib papa_parse papa_unparse createSheet random spreadsheetId rows tab st y.
                 self lib papa_parse papa_unparse createSheet random spreadsheetId rows tab st = Some y \<Longrightarrow>
                 \<not> (lib = library_of api_always_gone \<and> createSheet = fresh_sheet \<and> tab = None)"
    and eq: "(case sheets lib of None \<Rightarrow> Some (Rejected not_initialized, st)
      | Some api \<Rightarrow>
          case write_try lib api papa_parse random spreadsheetId
                (to_csv papa_unparse rows) tab st of
          (Resolved response, st1) \<Rightarrow> Some (Resolved response, st1)
          | (Rejected error, st1) \<Rightarrow>
              if code error = NumCode 404
              then case recreate lib createSheet [] st1 of
                   (Resolved newSpreadsheetId, st2) \<Rightarrow>
                     self lib papa_parse papa_unparse createSheet
                      random newSpreadsheetId
                      (Csv (to_csv papa_unparse rows)) tab st2
                   | (Rejected error2, st2) \<Rightarrow> Some (Rejected error2, st2)
              else Some (Rejected error, st1)) =
     Some y"
  show "\<not> (lib = library_of api_always_gone \<and> createSheet = fresh_sheet \<and> tab = None)"
  proof
    assume a: "lib = library_of api_always_gone \<and> createSheet = fresh_sheet \<and> tab = None"
    have s: "sheets (library_of api_always_gone) = Some api_always_gone"
      "sheets (library_of api_always_gone) \<noteq> None" "drive (library_of api_always_gone) \<noteq> None"
      by (simp_all add: library_of_def)
    have rc: "recreate (library_of api_always_gone) fresh_sheet [] st'
                = (Resolved ''fresh'', (fst st', snd st' @ [EvCreateSheet]))"
      for st' :: "nat \<times> event list"
      by (rule recreate_fresh[OF s(2,3)]) (simp add: fresh_sheet_def)
    have "self lib papa_parse papa_unparse createSheet random ''fresh''
            (Csv (to_csv papa_unparse rows)) tab
            (Suc (fst st), snd st @ [EvValuesUpdate spreadsheetId ''A1'', EvCreateSheet]) = Some y"
      using eq a s(1) by (simp add: write_try_always_gone rc gone_def)
    then have "\<not> (lib = library_of api_always_gone \<and> createSheet = fresh_sheet \<and> tab = None)"
      by (rule IH)
    with a show False by blast
  qed
qed

text \<open>
  Claim C7 as stated fails where it says that a not-found failure causes exactly one
  recreation and never an unbounded loop: when the replay is answered with not-found as
  well, a second spreadsheet is created, and with a service that answers every write with
  not-found the call never returns.
\<close>

theorem writeToSheet_unbounded_recreation:
  "recreations (writeToSheet (library_of (api_gone_until 2)) one_row no_unparse fresh_sheet
      no_jitter ''lost'' (Csv ''a'') None (0, [])) = Some 2 \<and>
   writeToSheet (library_of api_always_gone) one_row no_unparse fresh_sheet
      no_jitter ''lost'' (Csv ''a'') None (0, []) = None"
proof -
  have two: "writeToSheet (library_of (api_gone_until 2)) one_row no_unparse fresh_sheet
      no_jitter ''lost'' (Csv ''a'') None (0, [])
    = Some (Resolved \<lparr>updatedCells = 1\<rparr>, 3,
        [EvValuesUpdate ''lost'' ''A1'', EvCreateSheet, EvValuesUpdate ''fresh'' ''A1'',
         EvCreateSheet, EvValuesUpdate ''fresh'' ''A1''])"
    by (simp add: writeToSheet.simps library_of_def api_gone_until_def write_try_def
        write_values_def request_def awaited_def logged_def retryWithBackoff_def
        retry_loop.simps to_csv_def tab_given_def gone_def isRetryableError_def isQuotaError_def
        message_includes_def recreate_def call_def is_null_def fresh_sheet_def one_row_def
        a_drive_def)
  have never: "writeToSheet (library_of api_always_gone) one_row no_unparse fresh_sheet
      no_jitter ''lost'' (Csv ''a'') None (0, []) = None"
  proof (cases "writeToSheet (library_of api_always_gone) one_row no_unparse fresh_sheet
      no_jitter ''lost'' (Csv ''a'') None (0, [])")
    case None
    then show ?thesis .
  next
    case (Some y)
    from writeToSheet_never_returns[OF Some] show ?thesis by simp
  qed
  show ?thesis using two never by (simp add: recreations_def)
qed

text \<open>
  Claim C8, as the code has it. Before \<open>init\<close> both handles are \<open>null\<close>. Every exported
  function that talks to the service throws the error \<open>ak-sheets not initialized. Call
  init() first.\<close> before doing anything else, so no request is sent and the world is
  unchanged; this is shown for every guard of the table and on the functions modelled in
  full (\<open>getSheet\<close>, \<open>writeToSheet\<close>, \<open>updateSheet\<close>, \<open>deleteSheet\<close>). The functions
  that never talk to the service (\<open>getURL\<close>, \<open>makeCSVFromData\<close>, \<open>csvToJson\<close>,
  \<open>jsonToCsv\<close>, \<open>readXlsxFile\<close>) have no guard and run as after \<open>init\<close>.
\<close>

theorem operations_before_init:
  "(\<forall>lib op rest st.
      sheets lib = None \<and> drive lib = None \<and>
      op \<notin> {GetURL, MakeCSVFromData, ReadXlsxFile, CsvToJson, JsonToCsv} \<longrightarrow>
      call lib op rest st = (Rejected not_initialized, st)) \<and>
   (\<forall>lib op rest st.
      op \<in> {GetURL, MakeCSVFromData, ReadXlsxFile, CsvToJson, JsonToCsv} \<longrightarrow>
      call lib op rest st = rest st) \<and>
   (\<forall>lib random spreadsheetId tab fmt st.
      sheets lib = None \<longrightarrow>
      getSheet lib random spreadsheetId tab fmt st = (Rejected not_initialized, st)) \<and>
   (\<forall>lib papa_parse papa_unparse createSheet random spreadsheetId rows tab st.
      sheets lib = None \<longrightarrow>
      writeToSheet lib papa_parse papa_unparse createSheet random spreadsheetId rows tab st
        = Some (Rejected not_initialized, st)) \<and>
   (\<forall>lib papa_parse papa_unparse createSheet random spreadsheetId newData tab st.
      sheets lib = None \<longrightarrow>
      updateSheet lib papa_parse papa_unparse createSheet random spreadsheetId newData tab st
        = Some (Rejected not_initialized, st)) \<and>
   (\<forall>lib random spreadsheetId st.
      drive lib = None \<longrightarrow>
      deleteSheet lib random spreadsheetId st = (Rejected not_initialized, st)) \<and>
   message not_initialized = Some ''ak-sheets not initialized. Call init() first.''"
proof -
  have c1: "call lib op rest st = (Rejected not_initialized, st)"
    if "sheets lib = None \<and> drive lib = None \<and>
        op \<notin> {GetURL, MakeCSVFromData, ReadXlsxFile, CsvToJson, JsonToCsv}"
    for lib :: "'a library" and op
      and rest :: "'a \<times> event list \<Rightarrow> 'b outcome \<times> 'a \<times> event list" and st
  proof -
    from that have "list_ex (is_null lib) (guard op)"
      by (cases op) (simp_all add: is_null_def)
    then show ?thesis by (simp add: call_def)
  qed
  have c2: "call lib op rest st = rest st"
    if "op \<in> {GetURL, MakeCSVFromData, ReadXlsxFile, CsvToJson, JsonToCsv}"
    for lib :: "'c library" and op
      and rest :: "'c \<times> event list \<Rightarrow> 'd outcome \<times> 'c \<times> event list" and st
    using that by (auto simp: call_def)
  have c3: "getSheet lib random spreadsheetId tab fmt st = (Rejected not_initialized, st)"
    if "sheets lib = None" for lib :: "'e library" and random spreadsheetId tab fmt st
    using that by (simp add: getSheet_def)
  have c4: "writeToSheet lib papa_parse papa_unparse createSheet random spreadsheetId rows tab st
        = Some (Rejected not_initialized, st)"
    if "sheets lib = None"
    for lib :: "'f library" and papa_parse papa_unparse createSheet random spreadsheetId rows tab st
    using that by (subst writeToSheet.simps) simp
  have c5: "updateSheet lib papa_parse papa_unparse createSheet random spreadsheetId newData tab st
        = Some (Rejected not_initialized, st)"
    if "sheets lib = None"
    for lib :: "'g library" and papa_parse papa_unparse createSheet random spreadsheetId newData tab st
    using that by (simp add: updateSheet_def)
  have c6: "deleteSheet lib random spreadsheetId st = (Rejected not_initialized, st)"
    if "drive lib = None" for lib :: "'h library" and random spreadsheetId st
    using that by (simp add: deleteSheet_def)
  have c7: "message not_initialized = Some ''ak-sheets not initialized. Call init() first.''"
    by (simp add: not_initialized_def)
  show ?thesis
    using c1 c2 c3 c4 c5 c6 c7 by blast
qed

text \<open>The library before \<open>init\<close>.\<close>

theorem operations_before_init_witness:
  "sheets uninitialized = None \<and> drive uninitialized = None \<and>
   call uninitialized DeleteAllSheets a_request ((), []) = (Rejected not_initialized, ((), [])) \<and>
   call uninitialized JsonToCsv a_request ((), []) = (Resolved (), ((), [EvFilesDelete ''any''])) \<and>
   getSheet uninitialized no_jitter ''id'' None FormatJson ((), [])
     = (Rejected not_initialized, ((), [])) \<and>
   deleteSheet uninitialized no_jitter ''id'' ((), []) = (Rejected not_initialized, ((), []))"
proof -
  have h: "sheets uninitialized = None" "drive uninitialized = None"
    by (simp_all add: uninitialized_def)
  have h1: "sheets uninitialized = None \<and> drive uninitialized = None \<and>
      DeleteAllSheets \<notin> {GetURL, MakeCSVFromData, ReadXlsxFile, CsvToJson, JsonToCsv}"
    using h by simp
  have h2: "JsonToCsv \<in> {GetURL, MakeCSVFromData, ReadXlsxFile, CsvToJson, JsonToCsv}"
    by simp
  note t = operations_before_init
  have a: "call uninitialized DeleteAllSheets a_request ((), []) = (Rejected not_initialized, ((), []))"
    using t [THEN conjunct1, rule_format, OF h1] .
  have b: "call uninitialized JsonToCsv a_request ((), []) = a_request ((), [])"
    using t [THEN conjunct2, THEN conjunct1, rule_format, OF h2] .
  have c: "getSheet uninitialized no_jitter ''id'' None FormatJson ((), [])
     = (Rejected not_initialized, ((), []))"
    using t [THEN conjunct2, THEN conjunct2, THEN conjunct1, rule_format, OF h(1)] .
  have d: "deleteSheet uninitialized no_jitter ''id'' ((), []) = (Rejected not_initialized, ((), []))"
    using t [THEN conjunct2, THEN conjunct2, THEN conjunct2, THEN conjunct2, THEN conjunct2,
        THEN conjunct1, rule_format, OF h(2)] .
  show ?thesis using h a b c d by (simp add: a_request_def)
qed

text \<open>
  Claim C8 as stated fails at \<open>getURL\<close>: called before \<open>init\<close>, it returns the URL and
  throws nothing.
\<close>

theorem getURL_before_init:
  "sheets uninitialized = None \<and> drive uninitialized = None \<and>
   call uninitialized GetURL (getURL_call ''abc'') ((), [])
     = (Resolved ''https://docs.google.com/spreadsheets/d/abc'', ((), []))"
  by (simp add: call_def uninitialized_def getURL_call_def getURL_def)

lemma getSheet_empty:
  assumes "sheets lib = Some api" "0 \<le> maxRetries (retry_config lib)"
      and "values_get api spreadsheetId (if tab_given tab then tab_text tab @ ''!A:ZZ'' else ''A:ZZ'')
             (fst st) = (Resolved response, w1)"
      and "response = None \<or> response = Some []"
  shows "getSheet lib random spreadsheetId tab FormatArray st
           = (Resolved (AsArray []),
              (w1, snd st @ [EvValuesGet spreadsheetId
                               (if tab_given tab then tab_text tab @ ''!A:ZZ'' else ''A:ZZ'')]))"
proof -
  let ?range = "if tab_given tab then tab_text tab @ ''!A:ZZ'' else ''A:ZZ''"
  have "request lib random (EvValuesGet spreadsheetId ?range) (values_get api spreadsheetId ?range) st
          = (Resolved (Some response), (w1, snd st @ [EvValuesGet spreadsheetId ?range]))"
    by (rule request_resolved[where remote = "values_get api spreadsheetId ?range" and st = st,
          OF assms(3) assms(2)])
  then show ?thesis
    using assms(1,4) by (auto simp: getSheet_def Let_def)
qed

text \<open>
  Claim C10. \<open>mergeData\<close> reads row 0 of the existing grid with no guard. For an empty
  existing grid and new data that is a grid or CSV text, it returns a grid whose only
  row is the absent header (\<open>undefined\<close>); for new data that is a non-empty array of
  objects, projecting the first record onto the absent header throws a \<open>TypeError\<close>
  and no grid is returned. \<open>updateSheet\<close> calls it on what it has just read: when the
  tab reads empty and the new data is a non-empty array of objects, \<open>updateSheet\<close>
  fails with that \<open>TypeError\<close> after the read, and no write is sent.
\<close>

theorem mergeData_empty_existing:
  "(\<forall>papa g. mergeData papa [] (Grid g) = Inr [None]) \<and>
   (\<forall>papa text. mergeData papa [] (Csv text) = Inr [None]) \<and>
   (\<forall>papa item items.
      mergeData papa [] (Records (item # items))
        = Inl (TypeError ''Cannot read properties of undefined'')) \<and>
   (\<forall>lib api papa_parse papa_unparse createSheet random spreadsheetId tab st response w1 item items.
      sheets lib = Some api \<and> 0 \<le> maxRetries (retry_config lib) \<and>
      values_get api spreadsheetId (if tab_given tab then tab_text tab @ ''!A:ZZ'' else ''A:ZZ'')
         (fst st) = (Resolved response, w1) \<and>
      (response = None \<or> response = Some []) \<longrightarrow>
      updateSheet lib papa_parse papa_unparse createSheet random spreadsheetId
         (Records (item # items)) tab st
        = Some (Rejected (TypeError ''Cannot read properties of undefined''),
                (w1, snd st @ [EvValuesGet spreadsheetId
                                 (if tab_given tab then tab_text tab @ ''!A:ZZ'' else ''A:ZZ'')])))"
proof -
  have m: "mergeData papa [] (Grid g) = Inr [None]"
          "mergeData papa [] (Csv csv) = Inr [None]"
          "mergeData papa [] (Records (item # items))
             = Inl (TypeError ''Cannot read properties of undefined'')"
    for papa g csv item items
    by (simp_all add: mergeData_def processNewData_def split: list.splits)
  have u: "updateSheet lib papa_parse papa_unparse createSheet random spreadsheetId
         (Records (item # items)) tab st
        = Some (Rejected (TypeError ''Cannot read properties of undefined''),
                (w1, snd st @ [EvValuesGet spreadsheetId
                                 (if tab_given tab then tab_text tab @ ''!A:ZZ'' else ''A:ZZ'')]))"
    if "sheets lib = Some api \<and> 0 \<le> maxRetries (retry_config lib) \<and>
      values_get api spreadsheetId (if tab_given tab then tab_text tab @ ''!A:ZZ'' else ''A:ZZ'')
         (fst st) = (Resolved response, w1) \<and>
      (response = None \<or> response = Some [])"
    for lib :: "'a library" and api papa_parse papa_unparse createSheet random spreadsheetId tab st
      response w1 item items
  proof -
    from that have a: "sheets lib = Some api" and b: "0 \<le> maxRetries (retry_config lib)"
      and c: "values_get api spreadsheetId
                (if tab_given tab then tab_text tab @ ''!A:ZZ'' else ''A:ZZ'') (fst st)
              = (Resolved response, w1)"
      and d: "response = None \<or> response = Some []"
      by blast+
    have g: "getSheet lib random spreadsheetId tab FormatArray st
           = (Resolved (AsArray []),
              (w1, snd st @ [EvValuesGet spreadsheetId
                               (if tab_given tab then tab_text tab @ ''!A:ZZ'' else ''A:ZZ'')]))"
      by (rule getSheet_empty[OF a b c d])
    have "update_try lib api papa_parse random spreadsheetId (Records (item # items)) tab st
            = (Rejected (TypeError ''Cannot read properties of undefined''),
               (w1, snd st @ [EvValuesGet spreadsheetId
                               (if tab_given tab then tab_text tab @ ''!A:ZZ'' else ''A:ZZ'')]))"
      by (simp add: update_try_def g m)
    with a show ?thesis
      by (simp add: updateSheet_def TypeError_def)
  qed
  show ?thesis using m u by blast
qed

text \<open>Updating an empty tab with one record.\<close>

theorem mergeData_empty_existing_witness:
  "updateSheet (library_of (api_gone_until 0)) no_parse no_unparse fresh_sheet no_jitter
      ''id'' (Records [[(''name'', JStr ''Ann'')]]) (Some ''Data'') (0, [])
     = Some (Rejected (TypeError ''Cannot read properties of undefined''),
             (0, [EvValuesGet ''id'' ''Data!A:ZZ'']))"
proof -
  let ?lib = "library_of (api_gone_until 0)"
  have h: "sheets ?lib = Some (api_gone_until 0) \<and> 0 \<le> maxRetries (retry_config ?lib) \<and>
      values_get (api_gone_until 0) ''id''
         (if tab_given (Some ''Data'') then tab_text (Some ''Data'') @ ''!A:ZZ'' else ''A:ZZ'')
         (fst (0::nat, [])) = (Resolved None, 0) \<and>
      (None = None \<or> None = Some [])"
    by (simp add: library_of_def api_gone_until_def)
  show ?thesis
    using mergeData_empty_existing [THEN conjunct2, THEN conjunct2, THEN conjunct2, rule_format,
        OF h, where papa_parse = no_parse and papa_unparse = no_unparse
          and createSheet = fresh_sheet and random = no_jitter
          and item = "[(''name'', JStr ''Ann'')]" and items = "[]"]
    by (simp add: tab_given_def tab_text_def)
qed

end
